theory Spec2Isabelle
  imports Complex_Main "HOL-Library.Sublist"
begin
section \<open>Python values and exceptions\<close>

text \<open>
  The script \<^verbatim>\<open>bulk_clone_repos.py\<close> ranks GitHub repositories by stars,
  caches what the API said, writes a report and clones the selection. Text is modelled as
  \<^typ>\<open>string\<close>: a list of 8-bit characters, so a character outside ASCII stands for
  its UTF-8 bytes. Console output (\<^verbatim>\<open>print\<close>) is not part of the model.
\<close>

datatype exn =
    TypeError
  | ValueError
  | AttributeError
  | KeyError
  | IndexError
  | UnicodeDecodeError
  | OSError
  | SystemExit int

subsection \<open>String methods\<close>

definition starts_with :: "string \<Rightarrow> string \<Rightarrow> bool" where
  "starts_with p s = (take (length p) s = p)"

fun contains :: "string \<Rightarrow> string \<Rightarrow> bool" where
  "contains sub [] = (sub = [])"
| "contains sub (c # cs) = (starts_with sub (c # cs) \<or> contains sub cs)"

definition py_strip :: "string \<Rightarrow> string \<Rightarrow> string" where
  "py_strip chars s =
     rev (dropWhile (\<lambda>c. c \<in> set chars) (rev (dropWhile (\<lambda>c. c \<in> set chars) s)))"

text \<open>
  \<^verbatim>\<open>str.strip()\<close> without arguments removes Python's white space from both ends:
  the 29 code points for which \<^verbatim>\<open>str.isspace()\<close> holds (U+0009 to U+000D, U+001C
  to U+0020, U+0085, U+00A0, U+1680, U+2000 to U+200A, U+2028, U+2029, U+202F, U+205F,
  U+3000), here as their UTF-8 bytes. \<open>lstrip_any\<close> removes from the front every one of
  the given byte sequences, as long as one is there.
\<close>

definition whitespace :: "string list" where
  "whitespace =
     [[CHR 0x09], [CHR 0x0A], [CHR 0x0B], [CHR 0x0C], [CHR 0x0D],
      [CHR 0x1C], [CHR 0x1D], [CHR 0x1E], [CHR 0x1F], [CHR 0x20],
      [CHR 0xC2, CHR 0x85], [CHR 0xC2, CHR 0xA0], [CHR 0xE1, CHR 0x9A, CHR 0x80],
      [CHR 0xE2, CHR 0x80, CHR 0x80], [CHR 0xE2, CHR 0x80, CHR 0x81],
      [CHR 0xE2, CHR 0x80, CHR 0x82], [CHR 0xE2, CHR 0x80, CHR 0x83],
      [CHR 0xE2, CHR 0x80, CHR 0x84], [CHR 0xE2, CHR 0x80, CHR 0x85],
      [CHR 0xE2, CHR 0x80, CHR 0x86], [CHR 0xE2, CHR 0x80, CHR 0x87],
      [CHR 0xE2, CHR 0x80, CHR 0x88], [CHR 0xE2, CHR 0x80, CHR 0x89],
      [CHR 0xE2, CHR 0x80, CHR 0x8A], [CHR 0xE2, CHR 0x80, CHR 0xA8],
      [CHR 0xE2, CHR 0x80, CHR 0xA9], [CHR 0xE2, CHR 0x80, CHR 0xAF],
      [CHR 0xE2, CHR 0x81, CHR 0x9F], [CHR 0xE3, CHR 0x80, CHR 0x80]]"

function lstrip_any :: "string list \<Rightarrow> string \<Rightarrow> string" where
  "lstrip_any seqs s =
     (case find (\<lambda>q. q \<noteq> [] \<and> starts_with q s) seqs of
        None \<Rightarrow> s
      | Some q \<Rightarrow> lstrip_any seqs (drop (length q) s))"
  by pat_completeness auto
termination
proof (relation "measure (\<lambda>(seqs, s). length s)")
  show "wf (measure (\<lambda>(seqs, s). length s))" by simp
next
  fix seqs :: "string list" and s q :: string
  assume "find (\<lambda>q. q \<noteq> [] \<and> starts_with q s) seqs = Some q"
  then have "q \<noteq> []" and "starts_with q s"
    by (auto simp: find_Some_iff)
  then have "s \<noteq> []" by (auto simp: starts_with_def)
  with \<open>q \<noteq> []\<close> show "((seqs, drop (length q) s), (seqs, s)) \<in> measure (\<lambda>(seqs, s). length s)"
    by (cases s; cases q) auto
qed

declare lstrip_any.simps [simp del]

definition strip_whitespace :: "string \<Rightarrow> string" where
  "strip_whitespace s = rev (lstrip_any (map rev whitespace) (rev (lstrip_any whitespace s)))"

fun py_split :: "char \<Rightarrow> string \<Rightarrow> string list" where
  "py_split sep [] = [[]]"
| "py_split sep (c # cs) =
     (if c = sep then [] # py_split sep cs
      else (case py_split sep cs of [] \<Rightarrow> [[c]] | p # ps \<Rightarrow> (c # p) # ps))"

definition last_two :: "'a list \<Rightarrow> 'a list" where
  "last_two xs = drop (length xs - 2) xs"

fun py_join :: "string \<Rightarrow> string list \<Rightarrow> string" where
  "py_join sep [] = []"
| "py_join sep [p] = p"
| "py_join sep (p # q # ps) = p @ sep @ py_join sep (q # ps)"

function py_replace :: "string \<Rightarrow> string \<Rightarrow> string \<Rightarrow> string" where
  "py_replace old new s =
     (if old = [] then new @ concat (map (\<lambda>c. c # new) s)
      else if s = [] then []
      else if starts_with old s then new @ py_replace old new (drop (length old) s)
      else hd s # py_replace old new (tl s))"
  by pat_completeness auto
termination
  by (relation "measure (\<lambda>(old, new, s). length s)") auto

declare py_replace.simps [simp del]

text \<open>
  \<^verbatim>\<open>str.lower()\<close>: in ASCII text (no byte from 128 on) the letters A to Z become
  a to z and nothing else changes. Beyond ASCII Python follows the case tables of Unicode,
  which are no part of the script: there the result is what the given function
  \<open>unicode_lower\<close> returns, a parameter of the model.
\<close>

definition lower_char :: "char \<Rightarrow> char" where
  "lower_char c =
     (case map_of (zip ''ABCDEFGHIJKLMNOPQRSTUVWXYZ'' ''abcdefghijklmnopqrstuvwxyz'') c of
        None \<Rightarrow> c
      | Some d \<Rightarrow> d)"

definition ascii :: "string \<Rightarrow> bool" where
  "ascii s = list_all (\<lambda>c. \<not> digit7 c) s"

definition py_lower :: "(string \<Rightarrow> string) \<Rightarrow> string \<Rightarrow> string" where
  "py_lower unicode_lower s = (if ascii s then map lower_char s else unicode_lower s)"

section \<open>Data model\<close>

text \<open>
  \<^verbatim>\<open>class Config\<close>: the constants of the script, passed to every function as
  \<^verbatim>\<open>config\<close>. \<^verbatim>\<open>GITHUB_TOKEN\<close> is \<open>None\<close> when the environment variable is unset.
\<close>

record config =
  REPO_LIST_FILE :: string
  CLONE_DIR :: string
  TOP_N_REPOS :: int
  MARKDOWN_RESULT_FILE :: string
  API_CACHE_FILE :: string
  GITHUB_TOKEN :: "string option"
  MAX_REPO_SIZE_KB :: int

definition Config :: "string option \<Rightarrow> config" where
  "Config token =
     \<lparr>REPO_LIST_FILE = ''README.txt'', CLONE_DIR = ''community-templates'',
      TOP_N_REPOS = 50, MARKDOWN_RESULT_FILE = ''filtered.md'',
      API_CACHE_FILE = ''api_cache.json'', GITHUB_TOKEN = token,
      MAX_REPO_SIZE_KB = 5120\<rparr>"

text \<open>
  A repository dictionary, with the three keys the script ever reads or writes. A key is
  absent (\<open>None\<close>) or holds a value of the type the GitHub API documents for it: the
  record built at lines 146-150 has all three, the one built by the report parser at line 33
  has \<^verbatim>\<open>url\<close> only, and one loaded from an older cache file may lack any.
  The key \<^verbatim>\<open>size\<close> is the field \<open>size_kb\<close>.
\<close>

record repo =
  url :: "string option"
  stars :: "int option"
  size_kb :: "int option"

text \<open>
  The cache: a dictionary from URL to a repository dictionary or to Python's \<open>None\<close>
  (JSON \<open>null\<close>), the marker stored at line 143. \<open>cache u = None\<close> says that
  \<open>u\<close> is not a key; \<open>cache u = Some None\<close> that the key holds \<open>None\<close>.
\<close>

type_synonym cache = "string \<rightharpoonup> repo option"

subsection \<open>The GitHub API as the script sees it\<close>

text \<open>
  A header the script passes to \<^verbatim>\<open>int()\<close> is text that \<^verbatim>\<open>int()\<close>
  accepts, with its value, or text that makes it raise \<^verbatim>\<open>ValueError\<close>.
\<close>

datatype header_value = IntText int | OtherText

text \<open>
  The decoded body: \<^verbatim>\<open>response.json()\<close> raises (a \<^verbatim>\<open>RequestException\<close>)
  on text that is not JSON, returns a value without \<^verbatim>\<open>.get\<close> when the JSON is not
  an object, and otherwise a dictionary of which the script reads \<^verbatim>\<open>size\<close> and
  \<^verbatim>\<open>stargazers_count\<close>, integers when present.
\<close>

record data =
  data_size :: "int option"
  stargazers_count :: "int option"

datatype body = Undecodable | NonObject | Object data

record response =
  status_code :: int
  ratelimit_remaining :: "header_value option"
  ratelimit_reset :: "header_value option"
  json :: body

text \<open>
  \<^verbatim>\<open>requests.get\<close> raises a \<^verbatim>\<open>RequestException\<close> (no connection, timeout, ...)
  or returns a response.
\<close>

datatype api_outcome = RequestFailed | Responded response

subsection \<open>The world outside the process\<close>

datatype event =
    HttpGet string "(string \<times> string) list"
  | Sleep rat
  | MakeDirs string
  | GitPull string
  | GitClone string string

text \<open>
  What a call of \<^verbatim>\<open>subprocess.run(..., check=True, capture_output=True)\<close> meets. The
  command exits with status 0; or it exits with another status and
  \<^verbatim>\<open>CalledProcessError\<close> is raised, whose \<^verbatim>\<open>stderr\<close> is valid UTF-8 (\<open>True\<close>) or
  not; or the command cannot be started (\<^verbatim>\<open>git\<close> is not installed) and an
  \<^verbatim>\<open>OSError\<close> is raised.
\<close>

datatype run_outcome = Completed | NonZero bool | NotStarted

text \<open>
  The state the script reads and changes. \<open>api\<close> and \<open>git\<close> script what the next calls
  of \<^verbatim>\<open>requests.get\<close> and \<^verbatim>\<open>subprocess.run\<close> will meet; a function that needs
  an answer the script does not hold has no result in the model (\<open>None\<close>). The three
  files are kept by role, their names being distinct in \<^const>\<open>Config\<close>; a file that does
  not exist is \<open>None\<close>, and one that exists is valid UTF-8 that can be read and written.
  \<open>clock\<close> is what \<^verbatim>\<open>time.time()\<close> reads, \<open>now\<close> what \<^verbatim>\<open>datetime.now()\<close>
  returns, \<open>token_env\<close> the environment variable \<^verbatim>\<open>GITHUB_TOKEN\<close>, \<open>set_order\<close> the
  order in which Python iterates over the set built from the given distinct lines, which
  the language leaves open, and \<open>unicode_lower\<close> what \<^verbatim>\<open>str.lower()\<close> returns for
  text beyond ASCII. \<open>makedirs_fails\<close> says that \<^verbatim>\<open>os.makedirs\<close> raises an
  \<^verbatim>\<open>OSError\<close> (the path is a file, or may not be written). An event of the trace
  records a call, whatever came of it.
\<close>

record datetime =
  year :: nat
  month :: nat
  day :: nat
  hour :: nat
  minute :: nat
  second :: nat

record world =
  api :: "api_outcome list"
  git :: "run_outcome list"
  clock :: rat
  now :: datetime
  token_env :: "string option"
  set_order :: "string list \<Rightarrow> string list"
  unicode_lower :: "string \<Rightarrow> string"
  makedirs_fails :: bool
  list_file :: "string option"
  report_file :: "string option"
  cache_file :: "cache option"
  dirs :: "string set"
  trace :: "event list"

section \<open>The metadata fetcher\<close>

text \<open>\<^verbatim>\<open>'size' in entry\<close> (line 111): a \<^verbatim>\<open>TypeError\<close> when the entry is \<open>None\<close>.\<close>

definition size_in :: "repo option \<Rightarrow> exn + bool" where
  "size_in entry = (case entry of None \<Rightarrow> Inl TypeError | Some d \<Rightarrow> Inr (size_kb d \<noteq> None))"

text \<open>Line 121: the API address of the repository.\<close>

definition api_url :: "string \<Rightarrow> string" where
  "api_url repo_url =
     ''https://api.github.com/repos/'' @
     py_replace ''.git'' '''' (py_join ''/'' (last_two (py_split (CHR ''/'') (py_strip ''/'' repo_url))))"

text \<open>Lines 122-124: the token is sent when it is set and not empty.\<close>

definition headers :: "config \<Rightarrow> (string \<times> string) list" where
  "headers cfg =
     (''Accept'', ''application/vnd.github.v3+json'') #
     (case GITHUB_TOKEN cfg of
        None \<Rightarrow> []
      | Some t \<Rightarrow> if t = [] then [] else [(''Authorization'', ''token '' @ t)])"

text \<open>\<^verbatim>\<open>int(x)\<close> of a float: truncation towards zero.\<close>

definition py_int :: "rat \<Rightarrow> int" where
  "py_int x = (if 0 \<le> x then \<lfloor>x\<rfloor> else \<lceil>x\<rceil>)"

text \<open>The second test of line 129.\<close>

definition rate_limited :: "response \<Rightarrow> exn + bool" where
  "rate_limited r =
     (if status_code r = 429 then Inr True
      else (case ratelimit_remaining r of
              None \<Rightarrow> Inr False
            | Some OtherText \<Rightarrow> Inl ValueError
            | Some (IntText n) \<Rightarrow> Inr (n = 0)))"

text \<open>Line 130, at clock reading \<open>t\<close>.\<close>

definition reset_time :: "response \<Rightarrow> rat \<Rightarrow> exn + int" where
  "reset_time r t =
     (case ratelimit_reset r of
        None \<Rightarrow> Inr (py_int (t + 60))
      | Some OtherText \<Rightarrow> Inl ValueError
      | Some (IntText n) \<Rightarrow> Inr n)"

text \<open>Line 131.\<close>

definition wait_time :: "int \<Rightarrow> rat \<Rightarrow> rat" where
  "wait_time reset t = max (of_int reset - t) 0 + 1"

text \<open>\<^verbatim>\<open>raise_for_status\<close> raises for the statuses 400 to 599.\<close>

definition http_error :: "response \<Rightarrow> bool" where
  "http_error r = (400 \<le> status_code r \<and> status_code r < 600)"

text \<open>
  \<^verbatim>\<open>_fetch_repo_metadata\<close>, lines 109-155. The result is what the call returns
  (\<open>Inr None\<close> for Python's \<open>None\<close>) or the exception that leaves it, with the cache
  and the world as the call left them. The two readings of the clock at lines 130 and 131
  are one reading, and \<^verbatim>\<open>time.sleep\<close> returns exactly when the wait is over.
\<close>

function fetch_repo_metadata ::
  "string \<Rightarrow> cache \<Rightarrow> config \<Rightarrow> world \<Rightarrow> ((exn + repo option) \<times> cache \<times> world) option" where
  "fetch_repo_metadata repo_url cache cfg w =
     (case (case cache repo_url of None \<Rightarrow> Inr False | Some entry \<Rightarrow> size_in entry) of
        Inl e \<Rightarrow> Some (Inl e, cache, w)
      | Inr True \<Rightarrow>
          (case cache repo_url of
             None \<Rightarrow> Some (Inl KeyError, cache, w)
           | Some None \<Rightarrow> Some (Inr None, cache, w)
           | Some (Some d) \<Rightarrow>
               (case size_kb d of
                  None \<Rightarrow> Some (Inl KeyError, cache, w)
                | Some sz \<Rightarrow>
                    if sz > MAX_REPO_SIZE_KB cfg then Some (Inr None, cache, w)
                    else Some (Inr (Some d), cache, w)))
      | Inr False \<Rightarrow>
          (case api w of
             [] \<Rightarrow> None
           | answer # rest \<Rightarrow>
               (let w1 = w\<lparr>api := rest,
                           trace := trace w @ [HttpGet (api_url repo_url) (headers cfg)]\<rparr>
                in case answer of
                     RequestFailed \<Rightarrow> Some (Inr None, cache, w1)
                   | Responded r \<Rightarrow>
                       if status_code r \<in> {404, 403, 451} then Some (Inr None, cache, w1)
                       else
                         (case rate_limited r of
                            Inl e \<Rightarrow> Some (Inl e, cache, w1)
                          | Inr True \<Rightarrow>
                              (case reset_time r (clock w1) of
                                 Inl e \<Rightarrow> Some (Inl e, cache, w1)
                               | Inr reset \<Rightarrow>
                                   fetch_repo_metadata repo_url cache cfg
                                     (w1\<lparr>clock := clock w1 + wait_time reset (clock w1),
                                         trace := trace w1 @ [Sleep (wait_time reset (clock w1))]\<rparr>))
                          | Inr False \<Rightarrow>
                              if http_error r then Some (Inr None, cache, w1)
                              else
                                (case json r of
                                   Undecodable \<Rightarrow> Some (Inr None, cache, w1)
                                 | NonObject \<Rightarrow> Some (Inl AttributeError, cache, w1)
                                 | Object d \<Rightarrow>
                                     (let repo_size_kb =
                                            (case data_size d of None \<Rightarrow> 0 | Some n \<Rightarrow> n)
                                      in if repo_size_kb > MAX_REPO_SIZE_KB cfg
                                         then Some (Inr None, cache(repo_url \<mapsto> None), w1)
                                         else
                                           (let result =
                                                  \<lparr>url = Some repo_url,
                                                   stars = Some (case stargazers_count d of
                                                                   None \<Rightarrow> 0 | Some n \<Rightarrow> n),
                                                   size_kb = Some repo_size_kb\<rparr>
                                            in Some (Inr (Some result),
                                                     cache(repo_url \<mapsto> Some result), w1))))))))"
  by pat_completeness auto
termination
  by (relation "measure (\<lambda>(repo_url, cache, cfg, w). length (api w))") auto

declare fetch_repo_metadata.simps [simp del]

text \<open>
  Line 111 sends the call to the API when the URL is not a key of the cache, or when its
  entry is a dictionary without \<^verbatim>\<open>size\<close>.
\<close>

definition cache_miss :: "cache \<Rightarrow> string \<Rightarrow> bool" where
  "cache_miss cache repo_url =
     (case cache repo_url of
        None \<Rightarrow> True
      | Some None \<Rightarrow> False
      | Some (Some d) \<Rightarrow> size_kb d = None)"

text \<open>The world after one \<^verbatim>\<open>requests.get\<close>, and after \<^verbatim>\<open>time.sleep(t)\<close>.\<close>

definition requested :: "string \<Rightarrow> config \<Rightarrow> world \<Rightarrow> world" where
  "requested repo_url cfg w =
     w\<lparr>api := tl (api w), trace := trace w @ [HttpGet (api_url repo_url) (headers cfg)]\<rparr>"

definition slept :: "rat \<Rightarrow> world \<Rightarrow> world" where
  "slept t w = w\<lparr>clock := clock w + t, trace := trace w @ [Sleep t]\<rparr>"

text \<open>A world to run the examples in: nothing on disk, nothing scripted.\<close>

definition example_world :: world where
  "example_world =
     \<lparr>api = [], git = [], clock = 1700000000,
      now = \<lparr>year = 2024, month = 5, day = 17, hour = 9, minute = 3, second = 41\<rparr>,
      token_env = None, set_order = (\<lambda>xs. xs), unicode_lower = (\<lambda>s. s),
      makedirs_fails = False, list_file = None, report_file = None,
      cache_file = None, dirs = {}, trace = []\<rparr>"

text \<open>An answer of the API with status 200 and a body holding the two fields.\<close>

definition ok_response :: "int \<Rightarrow> int \<Rightarrow> response" where
  "ok_response st sz =
     \<lparr>status_code = 200, ratelimit_remaining = Some (IntText 59),
      ratelimit_reset = Some (IntText 1700003600),
      json = Object \<lparr>data_size = Some sz, stargazers_count = Some st\<rparr>\<rparr>"

text \<open>
  The answers after which line 128, or the \<^verbatim>\<open>except\<close> clause of line 154, returns
  \<open>None\<close>: no connection, one of the three listed statuses, or, for an answer that is not
  rate limited, an error status or a body that is not JSON.
\<close>

definition no_metadata :: "api_outcome \<Rightarrow> bool" where
  "no_metadata answer =
     (case answer of
        RequestFailed \<Rightarrow> True
      | Responded r \<Rightarrow>
          status_code r \<in> {404, 403, 451} \<or>
          (rate_limited r = Inr False \<and> (http_error r \<or> json r = Undecodable)))"

text \<open>An answer with status 429 and no quota left, to be retried at 1700000030.\<close>

definition limited_response :: response where
  "limited_response =
     \<lparr>status_code = 429, ratelimit_remaining = Some (IntText 0),
      ratelimit_reset = Some (IntText 1700000030), json = Undecodable\<rparr>"
section \<open>The report\<close>

subsection \<open>Formatting numbers\<close>

text \<open>\<^verbatim>\<open>str(n)\<close> for an integer: its decimal digits.\<close>

definition digit :: "nat \<Rightarrow> char" where
  "digit d = ''0123456789'' ! d"

function show_nat :: "nat \<Rightarrow> string" where
  "show_nat n = (if n < 10 then [digit n] else show_nat (n div 10) @ [digit (n mod 10)])"
  by pat_completeness auto
termination
  by (relation "measure id") auto

declare show_nat.simps [simp del]

definition show_int :: "int \<Rightarrow> string" where
  "show_int i = (if i < 0 then ''-'' @ show_nat (nat (- i)) else show_nat (nat i))"

text \<open>Two digits, as \<^verbatim>\<open>%m\<close>, \<^verbatim>\<open>%d\<close>, \<^verbatim>\<open>%H\<close>, \<^verbatim>\<open>%M\<close>, \<^verbatim>\<open>%S\<close> print them.\<close>

definition pad2 :: "nat \<Rightarrow> string" where
  "pad2 n = (if n < 10 then ''0'' @ show_nat n else show_nat n)"

text \<open>\<^verbatim>\<open>strftime('%Y-%m-%d %H:%M:%S')\<close>, for the four-digit years of the present.\<close>

definition strftime :: "datetime \<Rightarrow> string" where
  "strftime t =
     show_nat (year t) @ ''-'' @ pad2 (month t) @ ''-'' @ pad2 (day t) @ '' '' @
     pad2 (hour t) @ '':'' @ pad2 (minute t) @ '':'' @ pad2 (second t)"

text \<open>
  \<^verbatim>\<open>f"{size / 1024:.2f} MB"\<close> (line 168). The quotient of an integer below \<open>2^53\<close>
  by 1024 is an exact float, and \<^verbatim>\<open>.2f\<close> rounds the exact value to hundredths, a tie
  going to the even neighbour; a negative value keeps its sign even when it rounds to zero.
\<close>

definition round_half_even :: "int \<Rightarrow> int \<Rightarrow> int" where
  "round_half_even num den =
     (let q = num div den; r = num mod den
      in if 2 * r < den then q else if 2 * r > den then q + 1
         else if even q then q else q + 1)"

definition size_mb :: "int \<Rightarrow> string" where
  "size_mb sz =
     (let h = round_half_even (\<bar>sz\<bar> * 100) 1024
      in (if sz < 0 then ''-'' else '''') @ show_nat (nat (h div 100)) @ ''.'' @
         pad2 (nat (h mod 100)) @ '' MB'')"

subsection \<open>Writing the report\<close>

text \<open>
  Lines 160-164: the five header lines, in UTF-8. The size in the title is the class
  constant \<^verbatim>\<open>Config.MAX_REPO_SIZE_KB / 1024\<close>, that is \<^verbatim>\<open>5.0\<close>, whatever
  configuration was passed.
\<close>

definition report_header :: "nat \<Rightarrow> datetime \<Rightarrow> string" where
  "report_header n t =
     ''# Top '' @ show_nat n @
     '' Kho Ch'' @ [CHR 0xE1, CHR 0xBB, CHR 0xA9] @ ''a Git (Nh'' @ [CHR 0xE1, CHR 0xBB, CHR 0x8F] @
     '' h'' @ [CHR 0xC6, CHR 0xA1] @ ''n '' @ ''5.0'' @ ''MB)'' @ [CHR 0x0A, CHR 0x0A] @
     ''*T'' @ [CHR 0xE1, CHR 0xBB, CHR 0xB1] @ '' '' @
     [CHR 0xC4, CHR 0x91, CHR 0xE1, CHR 0xBB, CHR 0x99] @ ''ng t'' @ [CHR 0xE1, CHR 0xBA, CHR 0xA1] @
     ''o l'' @ [CHR 0xC3, CHR 0xBA] @ ''c: '' @ strftime t @ ''*'' @ [CHR 0x0A] @
     ''*X'' @ [CHR 0xC3, CHR 0xB3] @ ''a file n'' @ [CHR 0xC3, CHR 0xA0] @ ''y '' @
     [CHR 0xC4, CHR 0x91, CHR 0xE1, CHR 0xBB, CHR 0x83] @ '' bu'' @ [CHR 0xE1, CHR 0xBB, CHR 0x99] @
     ''c k'' @ [CHR 0xE1, CHR 0xBB, CHR 0x8B] @ ''ch b'' @ [CHR 0xE1, CHR 0xBA, CHR 0xA3] @
     ''n l'' @ [CHR 0xE1, CHR 0xBA, CHR 0xA5] @ ''y l'' @ [CHR 0xE1, CHR 0xBA, CHR 0xA1] @
     ''i d'' @ [CHR 0xE1, CHR 0xBB, CHR 0xAF] @ '' li'' @ [CHR 0xE1, CHR 0xBB, CHR 0x87] @
     ''u m'' @ [CHR 0xE1, CHR 0xBB, CHR 0x9B] @ ''i t'' @ [CHR 0xE1, CHR 0xBB, CHR 0xAB] @
     '' API.*'' @ [CHR 0x0A, CHR 0x0A] @
     ''| H'' @ [CHR 0xE1, CHR 0xBA, CHR 0xA1] @ ''ng | T'' @ [CHR 0xC3, CHR 0xAA] @
     ''n Kho Ch'' @ [CHR 0xE1, CHR 0xBB, CHR 0xA9] @ ''a | '' @ [CHR 0xE2, CHR 0xAD, CHR 0x90] @
     '' Sao | K'' @ [CHR 0xC3, CHR 0xAD] @ ''ch th'' @
     [CHR 0xC6, CHR 0xB0, CHR 0xE1, CHR 0xBB, CHR 0x9B] @ ''c | URL |'' @ [CHR 0x0A] @
     ''|------|--------------|-------|------------|-----|'' @ [CHR 0x0A]"

text \<open>
  Lines 166-169: one row, or the exception that leaves the loop: \<^verbatim>\<open>KeyError\<close> for a
  key the dictionary lacks, \<^verbatim>\<open>ValueError\<close> when the URL has a single segment and the
  unpacking of line 166 has one value for two names.
\<close>

definition report_row :: "nat \<Rightarrow> repo \<Rightarrow> exn + string" where
  "report_row i repo =
     (case url repo of
        None \<Rightarrow> Inl KeyError
      | Some u \<Rightarrow>
          (case last_two (py_split (CHR ''/'') (py_strip ''/'' u)) of
             [owner, repo_name] \<Rightarrow>
               (case size_kb repo of
                  None \<Rightarrow> Inl KeyError
                | Some sz \<Rightarrow>
                    (case stars repo of
                       None \<Rightarrow> Inl KeyError
                     | Some st \<Rightarrow>
                         Inr (''| '' @ show_nat i @ '' | `'' @ owner @ ''/'' @
                              py_replace ''.git'' '''' repo_name @ ''` | '' @ show_int st @
                              '' | `'' @ size_mb sz @ ''` | ['' @ u @ '']('' @ u @ '') |'' @
                              [CHR 0x0A])))
           | _ \<Rightarrow> Inl ValueError))"

text \<open>The loop of line 165, from rank \<open>i\<close>, appending to what the file holds.\<close>

fun write_rows :: "nat \<Rightarrow> repo list \<Rightarrow> string \<Rightarrow> exn option \<times> string" where
  "write_rows i [] text = (None, text)"
| "write_rows i (repo # repos) text =
     (case report_row i repo of
        Inl e \<Rightarrow> (Some e, text)
      | Inr row \<Rightarrow> write_rows (Suc i) repos (text @ row))"

text \<open>
  \<^verbatim>\<open>_write_markdown_file\<close>, lines 157-170. The file is opened for writing first, so
  what was written before an exception stays in it.
\<close>

definition write_markdown_file :: "repo list \<Rightarrow> world \<Rightarrow> (exn + unit) \<times> world" where
  "write_markdown_file repos w =
     (case write_rows 1 repos (report_header (length repos) (now w)) of
        (None, text) \<Rightarrow> (Inr (), w\<lparr>report_file := Some text\<rparr>)
      | (Some e, text) \<Rightarrow> (Inl e, w\<lparr>report_file := Some text\<rparr>))"

subsection \<open>Reading a text file line by line\<close>

text \<open>
  A file opened with \<^verbatim>\<open>open(name, 'r')\<close> is read with universal newlines: a
  carriage return, alone or before a line feed, is read as a line feed. Iterating over the
  file yields its lines, each with the line feed that ends it.
\<close>

fun universal_newlines :: "string \<Rightarrow> string" where
  "universal_newlines [] = []"
| "universal_newlines [c] = (if c = CHR 0x0D then [CHR 0x0A] else [c])"
| "universal_newlines (c # d # cs) =
     (if c = CHR 0x0D \<and> d = CHR 0x0A then CHR 0x0A # universal_newlines cs
      else if c = CHR 0x0D then CHR 0x0A # universal_newlines (d # cs)
      else c # universal_newlines (d # cs))"

fun split_lines :: "string \<Rightarrow> string list" where
  "split_lines [] = []"
| "split_lines (c # cs) =
     (if c = CHR 0x0A then [c] # split_lines cs
      else (case split_lines cs of [] \<Rightarrow> [[c]] | l # ls \<Rightarrow> (c # l) # ls))"

definition read_lines :: "string \<Rightarrow> string list" where
  "read_lines text = split_lines (universal_newlines text)"

subsection \<open>Parsing the report\<close>

text \<open>
  \<^verbatim>\<open>re.search(r"\[(https://github.com/.+?)\]", line)\<close>, line 31. A dot of the pattern
  matches any character but the line feed. \<open>lazy_until_bracket\<close> is the lazy repetition
  followed by the closing bracket: it takes as few characters as will do. \<open>match_link\<close> is
  the pattern at the head of the text, and \<open>re_search\<close> tries the positions from the left;
  both give group 1 of the match.
\<close>

definition dot :: "char \<Rightarrow> bool" where
  "dot c = (c \<noteq> CHR 0x0A)"

fun lazy_until_bracket :: "string \<Rightarrow> string option" where
  "lazy_until_bracket [] = None"
| "lazy_until_bracket (c # cs) =
     (if c = CHR '']'' then Some []
      else if dot c then map_option ((#) c) (lazy_until_bracket cs)
      else None)"

definition match_link :: "string \<Rightarrow> string option" where
  "match_link s =
     (case s of
        [] \<Rightarrow> None
      | b # s1 \<Rightarrow>
          (let head = take 19 s1; rest = drop 19 s1
           in if b = CHR ''['' \<and> length head = 19 \<and> take 14 head = ''https://github'' \<and>
                 dot (head ! 14) \<and> drop 15 head = ''com/''
              then (case rest of
                      [] \<Rightarrow> None
                    | x # r \<Rightarrow>
                        if dot x then map_option (\<lambda>t. head @ x # t) (lazy_until_bracket r)
                        else None)
              else None))"

fun re_search :: "string \<Rightarrow> string option" where
  "re_search [] = None"
| "re_search (c # cs) =
     (case match_link (c # cs) of
        Some g \<Rightarrow> Some g
      | None \<Rightarrow> re_search cs)"

text \<open>The loop of lines 30-33 over the lines of the file.\<close>

fun extract_repos :: "string list \<Rightarrow> repo list" where
  "extract_repos [] = []"
| "extract_repos (line # lines) =
     (case re_search line of
        None \<Rightarrow> extract_repos lines
      | Some g \<Rightarrow> \<lparr>url = Some g, stars = None, size_kb = None\<rparr> # extract_repos lines)"

text \<open>\<^verbatim>\<open>parse_markdown_for_repos\<close>, lines 24-39: no file, no repositories.\<close>

definition parse_markdown_for_repos :: "world \<Rightarrow> repo list" where
  "parse_markdown_for_repos w =
     (case report_file w of
        None \<Rightarrow> []
      | Some text \<Rightarrow> extract_repos (read_lines text))"

text \<open>
  The URLs the report can carry: those that begin with \<^verbatim>\<open>https://github.com/\<close>,
  go on after it, and hold no closing bracket, line feed or carriage return; and the
  records the report writes and gives back: a star count, a size and such a URL.
\<close>

definition link_url :: "string \<Rightarrow> bool" where
  "link_url u =
     (starts_with ''https://github.com/'' u \<and> u \<noteq> ''https://github.com/'' \<and>
      CHR '']'' \<notin> set u \<and> CHR 0x0A \<notin> set u \<and> CHR 0x0D \<notin> set u)"

definition linkable :: "repo \<Rightarrow> bool" where
  "linkable repo =
     (stars repo \<noteq> None \<and> size_kb repo \<noteq> None \<and>
      (case url repo of None \<Rightarrow> False | Some u \<Rightarrow> link_url u))"
section \<open>The ranking pipeline\<close>

text \<open>
  \<^verbatim>\<open>if repo_info:\<close> (line 59): \<open>None\<close> and the empty dictionary are false.
\<close>

definition collected :: "repo option \<Rightarrow> repo list" where
  "collected repo_info =
     (case repo_info of
        None \<Rightarrow> []
      | Some d \<Rightarrow> if d = \<lparr>url = None, stars = None, size_kb = None\<rparr> then [] else [d])"

text \<open>
  The loop of lines 56-60: the results in the order of the URLs. An exception of the
  fetcher leaves the loop, and the function, at once.
\<close>

fun fetch_all ::
  "config \<Rightarrow> string list \<Rightarrow> cache \<Rightarrow> world \<Rightarrow> ((exn + repo list) \<times> cache \<times> world) option" where
  "fetch_all cfg [] cache w = Some (Inr [], cache, w)"
| "fetch_all cfg (repo_url # urls) cache w =
     (case fetch_repo_metadata repo_url cache cfg w of
        None \<Rightarrow> None
      | Some (Inl e, cache1, w1) \<Rightarrow> Some (Inl e, cache1, w1)
      | Some (Inr repo_info, cache1, w1) \<Rightarrow>
          (case fetch_all cfg urls cache1 w1 of
             None \<Rightarrow> None
           | Some (Inl e, cache2, w2) \<Rightarrow> Some (Inl e, cache2, w2)
           | Some (Inr all_repos_data, cache2, w2) \<Rightarrow>
               Some (Inr (collected repo_info @ all_repos_data), cache2, w2)))"

text \<open>
  \<^verbatim>\<open>all_repos_data.sort(key=lambda x: x['stars'], reverse=True)\<close>, line 64. The keys
  are computed first, a missing one raising \<^verbatim>\<open>KeyError\<close>; Python's sort is stable,
  also with \<^verbatim>\<open>reverse=True\<close>: records with equal stars keep their order.
\<close>

definition star_count :: "repo \<Rightarrow> int" where
  "star_count d = (case stars d of None \<Rightarrow> 0 | Some n \<Rightarrow> n)"

definition sort_by_stars :: "repo list \<Rightarrow> exn + repo list" where
  "sort_by_stars all_repos_data =
     (if list_all (\<lambda>d. stars d \<noteq> None) all_repos_data
      then Inr (sort_key (\<lambda>d. - star_count d) all_repos_data)
      else Inl KeyError)"

text \<open>The slice \<^verbatim>\<open>xs[:n]\<close>: a negative \<open>n\<close> counts from the end.\<close>

definition py_take :: "int \<Rightarrow> 'a list \<Rightarrow> 'a list" where
  "py_take n xs = (if 0 \<le> n then take (nat n) xs else take (length xs - nat (- n)) xs)"

text \<open>Lines 50-51: the distinct stripped lines that mention the host, in the set's order.\<close>

definition candidate_urls :: "world \<Rightarrow> string \<Rightarrow> string list" where
  "candidate_urls w text =
     set_order w (remdups (filter (contains ''github.com'')
                             (map strip_whitespace (read_lines text))))"

text \<open>
  \<^verbatim>\<open>get_top_repos_from_api\<close>, lines 41-68. \<^verbatim>\<open>sys.exit(1)\<close> is the exception
  \<^verbatim>\<open>SystemExit\<close>. The cache is saved at line 62 only when every fetch returned.
\<close>

definition get_top_repos_from_api :: "config \<Rightarrow> world \<Rightarrow> ((exn + repo list) \<times> world) option" where
  "get_top_repos_from_api cfg w =
     (let cache = (case cache_file w of None \<Rightarrow> Map.empty | Some c \<Rightarrow> c)
      in case list_file w of
           None \<Rightarrow> Some (Inl (SystemExit 1), w)
         | Some text \<Rightarrow>
             (case fetch_all cfg (candidate_urls w text) cache w of
                None \<Rightarrow> None
              | Some (Inl e, cache1, w1) \<Rightarrow> Some (Inl e, w1)
              | Some (Inr all_repos_data, cache1, w1) \<Rightarrow>
                  (let w2 = w1\<lparr>cache_file := Some cache1\<rparr>
                   in case sort_by_stars all_repos_data of
                        Inl e \<Rightarrow> Some (Inl e, w2)
                      | Inr sorted_data \<Rightarrow>
                          (let top_repos = py_take (TOP_N_REPOS cfg) sorted_data
                           in case write_markdown_file top_repos w2 of
                                (Inl e, w3) \<Rightarrow> Some (Inl e, w3)
                              | (Inr u, w3) \<Rightarrow> Some (Inr top_repos, w3)))))"

section \<open>Cloning and updating\<close>

text \<open>\<^verbatim>\<open>os.path.join\<close> of two components.\<close>

definition os_path_join :: "string \<Rightarrow> string \<Rightarrow> string" where
  "os_path_join a b =
     (if starts_with ''/'' b then b
      else if a = [] \<or> last a = CHR ''/'' then a @ b
      else a @ ''/'' @ b)"

text \<open>
  Lines 81-83: the directory of a repository, from its URL. \<^verbatim>\<open>parts[-2]\<close> raises
  \<^verbatim>\<open>IndexError\<close> when the URL has a single segment. \<open>lower\<close> is the world's
  \<open>unicode_lower\<close>.
\<close>

definition dir_name :: "(string \<Rightarrow> string) \<Rightarrow> string \<Rightarrow> string \<Rightarrow> string" where
  "dir_name lower owner repo_name = py_lower lower (owner @ ''__'' @ repo_name)"

definition target_dir :: "config \<Rightarrow> (string \<Rightarrow> string) \<Rightarrow> string \<Rightarrow> exn + string" where
  "target_dir cfg lower repo_url =
     (let parts = py_split (CHR ''/'') (py_strip ''/'' repo_url)
      in if length parts < 2 then Inl IndexError
         else Inr (os_path_join (CLONE_DIR cfg)
                     (dir_name lower (parts ! (length parts - 2))
                        (py_replace ''.git'' '''' (last parts)))))"

text \<open>
  How the body of the loop ends after its call of \<^verbatim>\<open>subprocess.run\<close>. Line 93
  catches \<^verbatim>\<open>CalledProcessError\<close>, and line 94 decodes its \<^verbatim>\<open>stderr\<close>: bytes that
  are not UTF-8 raise \<^verbatim>\<open>UnicodeDecodeError\<close> inside the handler. An \<^verbatim>\<open>OSError\<close>
  is not among the exceptions of line 93. Both leave the loop and the function.
\<close>

definition handled :: "run_outcome \<Rightarrow> exn + unit" where
  "handled outcome =
     (case outcome of
        Completed \<Rightarrow> Inr ()
      | NonZero decodable \<Rightarrow> if decodable then Inr () else Inl UnicodeDecodeError
      | NotStarted \<Rightarrow> Inl OSError)"

text \<open>
  The body of the loop of line 79 with its \<^verbatim>\<open>try\<close>: a missing URL
  (\<^verbatim>\<open>KeyError\<close>) and a short URL (\<^verbatim>\<open>IndexError\<close>) are caught and the repository
  is skipped before any command runs. A clone that succeeds leaves the directory behind;
  one that fails leaves none.
\<close>

definition clone_or_update :: "config \<Rightarrow> repo \<Rightarrow> world \<Rightarrow> ((exn + unit) \<times> world) option" where
  "clone_or_update cfg repo w =
     (case url repo of
        None \<Rightarrow> Some (Inr (), w)
      | Some repo_url \<Rightarrow>
          (case target_dir cfg (unicode_lower w) repo_url of
             Inl e \<Rightarrow> Some (Inr (), w)
           | Inr dir \<Rightarrow>
               (case git w of
                  [] \<Rightarrow> None
                | outcome # rest \<Rightarrow>
                    if dir \<in> dirs w
                    then Some (handled outcome,
                               w\<lparr>git := rest, trace := trace w @ [GitPull dir]\<rparr>)
                    else Some (handled outcome,
                               w\<lparr>git := rest, trace := trace w @ [GitClone repo_url dir],
                                 dirs := (if outcome = Completed then insert dir (dirs w)
                                          else dirs w)\<rparr>))))"

text \<open>The loop of line 79: an exception that the body does not catch ends it.\<close>

fun clone_loop :: "config \<Rightarrow> repo list \<Rightarrow> world \<Rightarrow> ((exn + unit) \<times> world) option" where
  "clone_loop cfg [] w = Some (Inr (), w)"
| "clone_loop cfg (repo # repos) w =
     (case clone_or_update cfg repo w of
        None \<Rightarrow> None
      | Some (Inl e, w1) \<Rightarrow> Some (Inl e, w1)
      | Some (Inr u, w1) \<Rightarrow> clone_loop cfg repos w1)"

text \<open>
  \<^verbatim>\<open>clone_or_update_repos\<close>, lines 70-95. \<^verbatim>\<open>os.makedirs\<close> at line 77 is
  outside the \<^verbatim>\<open>try\<close>.
\<close>

definition clone_or_update_repos ::
  "config \<Rightarrow> repo list \<Rightarrow> world \<Rightarrow> ((exn + unit) \<times> world) option" where
  "clone_or_update_repos cfg repos_to_process w =
     (if repos_to_process = [] then Some (Inr (), w)
      else if makedirs_fails w
      then Some (Inl OSError, w\<lparr>trace := trace w @ [MakeDirs (CLONE_DIR cfg)]\<rparr>)
      else clone_loop cfg repos_to_process
             (w\<lparr>dirs := insert (CLONE_DIR cfg) (dirs w),
                trace := trace w @ [MakeDirs (CLONE_DIR cfg)]\<rparr>))"

section \<open>The process\<close>

text \<open>
  The exit status: that of \<^verbatim>\<open>sys.exit\<close>, 1 for any other exception that reaches
  the top, and 0 when \<^verbatim>\<open>main\<close> returns.
\<close>

definition exit_status :: "exn \<Rightarrow> int" where
  "exit_status e = (case e of SystemExit n \<Rightarrow> n | _ \<Rightarrow> 1)"

definition finished :: "((exn + unit) \<times> world) option \<Rightarrow> (int \<times> world) option" where
  "finished r =
     (case r of
        None \<Rightarrow> None
      | Some (Inl e, w) \<Rightarrow> Some (exit_status e, w)
      | Some (Inr u, w) \<Rightarrow> Some (0, w))"

text \<open>\<^verbatim>\<open>main\<close>, lines 174-185, with the exit status of the process.\<close>

definition main :: "world \<Rightarrow> (int \<times> world) option" where
  "main w =
     (let cfg = Config (token_env w);
          repos_to_process = parse_markdown_for_repos w
      in if repos_to_process \<noteq> []
         then finished (clone_or_update_repos cfg repos_to_process w)
         else (case get_top_repos_from_api cfg w of
                 None \<Rightarrow> None
               | Some (Inl e, w1) \<Rightarrow> Some (exit_status e, w1)
               | Some (Inr top_repos, w1) \<Rightarrow>
                   finished (clone_or_update_repos cfg top_repos w1)))"

section \<open>Worlds for the examples\<close>

text \<open>
  Five candidates: A is not found, B has 300 stars and 100 KB, C has 500 stars and 8000 KB,
  D has 300 stars and 50 KB, E has 900 stars and 10 KB.
\<close>

definition ranking_world :: world where
  "ranking_world =
     example_world
       \<lparr>list_file := Some (''https://github.com/a/a'' @ [CHR 0x0A] @
                          ''https://github.com/b/b'' @ [CHR 0x0A] @
                          ''https://github.com/c/c'' @ [CHR 0x0A] @
                          ''https://github.com/d/d'' @ [CHR 0x0A] @
                          ''https://github.com/e/e'' @ [CHR 0x0A]),
        api := [Responded ((ok_response 0 0)\<lparr>status_code := 404\<rparr>),
                Responded (ok_response 300 100),
                Responded (ok_response 500 8000),
                Responded (ok_response 300 50),
                Responded (ok_response 900 10)],
        git := [Completed, NonZero True, Completed]\<rparr>"


text \<open>
  A world with a report of one row and no input file; the clone will fail.
\<close>

definition report_world :: world where
  "report_world =
     example_world
       \<lparr>report_file := Some (''| 1 | `b/b` | 300 | `0.10 MB` | [https://github.com/b/b](https://github.com/b/b) |'' @ [CHR 0x0A]),
        git := [NonZero True]\<rparr>"

text \<open>
  The second run after C was found too large: the input file lists C, the cache file
  holds \<open>None\<close> for it, and there is no report.
\<close>

definition tombstone_world :: world where
  "tombstone_world =
     example_world
       \<lparr>list_file := Some (''https://github.com/c/c'' @ [CHR 0x0A]),
        cache_file := Some [''https://github.com/c/c'' \<mapsto> None]\<rparr>"
section \<open>Properties of the metadata fetcher\<close>

lemma fetch_cached:
  assumes "cache u = Some (Some d)" and "size_kb d = Some sz"
  shows "fetch_repo_metadata u cache cfg w =
           Some (Inr (if sz > MAX_REPO_SIZE_KB cfg then None else Some d), cache, w)"
  using assms by (simp add: fetch_repo_metadata.simps size_in_def)

lemma fetch_request_failed:
  assumes "cache_miss cache u" and "api w = RequestFailed # rest"
  shows "fetch_repo_metadata u cache cfg w = Some (Inr None, cache, requested u cfg w)"
  using assms
  by (subst fetch_repo_metadata.simps)
     (auto simp: cache_miss_def size_in_def requested_def Let_def split: option.splits)

lemma fetch_excluded:
  assumes "cache_miss cache u" and "api w = Responded r # rest"
    and "status_code r \<in> {404, 403, 451}"
  shows "fetch_repo_metadata u cache cfg w = Some (Inr None, cache, requested u cfg w)"
  using assms
  by (subst fetch_repo_metadata.simps)
     (auto simp: cache_miss_def size_in_def requested_def Let_def split: option.splits)

lemma fetch_rate_limited:
  assumes "cache_miss cache u" and "api w = Responded r # rest"
    and "status_code r \<notin> {404, 403, 451}" and "rate_limited r = Inr True"
    and "reset_time r (clock w) = Inr reset"
  shows "fetch_repo_metadata u cache cfg w =
           fetch_repo_metadata u cache cfg (slept (wait_time reset (clock w)) (requested u cfg w))"
  using assms
  by (subst fetch_repo_metadata.simps)
     (auto simp: cache_miss_def size_in_def requested_def slept_def Let_def split: option.splits)

lemma fetch_header_error:
  assumes "cache_miss cache u" and "api w = Responded r # rest"
    and "status_code r \<notin> {404, 403, 451}"
    and "rate_limited r = Inl e \<or> (rate_limited r = Inr True \<and> reset_time r (clock w) = Inl e)"
  shows "fetch_repo_metadata u cache cfg w = Some (Inl e, cache, requested u cfg w)"
  using assms
  by (subst fetch_repo_metadata.simps)
     (auto simp: cache_miss_def size_in_def requested_def Let_def split: option.splits)

lemma fetch_transport_error:
  assumes "cache_miss cache u" and "api w = Responded r # rest"
    and "status_code r \<notin> {404, 403, 451}" and "rate_limited r = Inr False"
    and "http_error r \<or> json r = Undecodable"
  shows "fetch_repo_metadata u cache cfg w = Some (Inr None, cache, requested u cfg w)"
  using assms
  by (subst fetch_repo_metadata.simps)
     (auto simp: cache_miss_def size_in_def requested_def Let_def split: option.splits)

lemma fetch_object:
  assumes "cache_miss cache u" and "api w = Responded r # rest"
    and "status_code r \<notin> {404, 403, 451}" and "rate_limited r = Inr False"
    and "\<not> http_error r" and "json r = Object d"
  shows "fetch_repo_metadata u cache cfg w =
           (let repo_size_kb = (case data_size d of None \<Rightarrow> 0 | Some n \<Rightarrow> n);
                result = \<lparr>url = Some u,
                          stars = Some (case stargazers_count d of None \<Rightarrow> 0 | Some n \<Rightarrow> n),
                          size_kb = Some repo_size_kb\<rparr>
            in if repo_size_kb > MAX_REPO_SIZE_KB cfg
               then Some (Inr None, cache(u \<mapsto> None), requested u cfg w)
               else Some (Inr (Some result), cache(u \<mapsto> Some result), requested u cfg w))"
  using assms
  by (subst fetch_repo_metadata.simps)
     (auto simp: cache_miss_def size_in_def requested_def Let_def split: option.splits)

lemma fetch_non_object:
  assumes "cache_miss cache u" and "api w = Responded r # rest"
    and "status_code r \<notin> {404, 403, 451}" and "rate_limited r = Inr False"
    and "\<not> http_error r" and "json r = NonObject"
  shows "fetch_repo_metadata u cache cfg w = Some (Inl AttributeError, cache, requested u cfg w)"
  using assms
  by (subst fetch_repo_metadata.simps)
     (auto simp: cache_miss_def size_in_def requested_def Let_def split: option.splits)

lemma fetch_script_empty:
  assumes "cache_miss cache u" and "api w = []"
  shows "fetch_repo_metadata u cache cfg w = None"
  using assms
  by (subst fetch_repo_metadata.simps)
     (auto simp: cache_miss_def size_in_def split: option.splits)

lemma api_after_request: "api w = answer # rest \<Longrightarrow> api (slept t (requested u cfg w)) = rest"
  by (simp add: slept_def requested_def)

lemma fetch_no_metadata:
  assumes "cache_miss cache u" and "api w = answer # rest" and "no_metadata answer"
  shows "fetch_repo_metadata u cache cfg w = Some (Inr None, cache, requested u cfg w)"
proof (cases answer)
  case RequestFailed
  with assms show ?thesis by (simp add: fetch_request_failed)
next
  case (Responded r)
  show ?thesis
  proof (cases "status_code r \<in> {404, 403, 451}")
    case True
    with assms Responded show ?thesis by (simp add: fetch_excluded)
  next
    case False
    with assms Responded have "rate_limited r = Inr False" "http_error r \<or> json r = Undecodable"
      by (auto simp: no_metadata_def)
    with assms Responded False show ?thesis
      using fetch_transport_error [of cache u w r rest cfg] by simp
  qed
qed
section \<open>Properties of the ranking pipeline\<close>

lemma sort_by_stars_sorted:
  assumes "sort_by_stars xs = Inr ys"
  shows "ys = sort_key (\<lambda>d. - star_count d) xs" and "list_all (\<lambda>d. stars d \<noteq> None) xs"
  using assms by (auto simp: sort_by_stars_def split: if_splits)

lemma sorted_desc_sort_key:
  "sorted_wrt (\<lambda>a b. star_count b \<le> star_count a) (sort_key (\<lambda>d. - star_count d) xs)"
proof -
  have "sorted (map (\<lambda>d. - star_count d) (sort_key (\<lambda>d. - star_count d) xs))"
    by (rule sorted_sort_key)
  then show ?thesis by (simp add: sorted_map)
qed

lemma ties_keep_order:
  "prefix (filter (\<lambda>d. star_count d = k) (take n (sort_key (\<lambda>d. - star_count d) xs)))
          (filter (\<lambda>d. star_count d = k) xs)"
proof -
  have "filter (\<lambda>d. - star_count d = - k) (sort_key (\<lambda>d. - star_count d) xs) =
        filter (\<lambda>d. - star_count d = - k) xs"
    by (rule sort_key_stable)
  then have "filter (\<lambda>d. star_count d = k) (sort_key (\<lambda>d. - star_count d) xs) =
             filter (\<lambda>d. star_count d = k) xs"
    by simp
  moreover have "prefix (filter (\<lambda>d. star_count d = k) (take n (sort_key (\<lambda>d. - star_count d) xs)))
                        (filter (\<lambda>d. star_count d = k) (sort_key (\<lambda>d. - star_count d) xs))"
    by (rule filter_mono_prefix) (rule take_is_prefix)
  ultimately show ?thesis by simp
qed

lemma get_top_returns:
  assumes "get_top_repos_from_api cfg w = Some (Inr top_repos, w')"
  shows "\<exists>text all_repos_data cache1 w1.
           list_file w = Some text \<and>
           fetch_all cfg (candidate_urls w text)
             (case cache_file w of None \<Rightarrow> Map.empty | Some c \<Rightarrow> c) w =
             Some (Inr all_repos_data, cache1, w1) \<and>
           list_all (\<lambda>d. stars d \<noteq> None) all_repos_data \<and>
           top_repos = py_take (TOP_N_REPOS cfg) (sort_key (\<lambda>d. - star_count d) all_repos_data)"
  using assms
  by (auto simp: get_top_repos_from_api_def Let_def sort_by_stars_def
           split: option.splits sum.splits prod.splits if_splits)

lemma ranking_run:
  "map_option fst (get_top_repos_from_api ((Config None)\<lparr>TOP_N_REPOS := 2\<rparr>) ranking_world) =
     Some (Inr [\<lparr>url = Some ''https://github.com/e/e'', stars = Some 900, size_kb = Some 10\<rparr>,
                \<lparr>url = Some ''https://github.com/b/b'', stars = Some 300, size_kb = Some 100\<rparr>])"
  by code_simp
section \<open>Properties of the executor\<close>



lemma ascii_append: "ascii (a @ b) \<longleftrightarrow> ascii a \<and> ascii b"
  by (simp add: ascii_def)


lemma py_split_no_sep: "p \<in> set (py_split c s) \<Longrightarrow> c \<notin> set p"
  by (induction s arbitrary: p) (auto split: list.splits if_splits)



section \<open>Properties of the process\<close>

text \<open>
  The one \<^verbatim>\<open>sys.exit\<close> of the script: the ranking pipeline runs and the input file
  is absent. The report is parsed first: when it yields a repository the input file is
  not opened, and its absence goes unnoticed.
\<close>

lemma missing_input_file_is_fatal:
  assumes "parse_markdown_for_repos w = []" and "list_file w = None"
  shows "main w = Some (1, w)"
  using assms by (simp add: main_def get_top_repos_from_api_def exit_status_def)

lemma report_is_parsed_first:
  "list_file report_world = None \<and> map_option fst (main report_world) = Some 0"
  by code_simp
section \<open>Properties of the report\<close>

subsection \<open>What the formatted numbers can contain\<close>

lemma digit_in: "d < 10 \<Longrightarrow> digit d \<in> set ''0123456789''"
  unfolding digit_def by (rule nth_mem) simp

lemma show_nat_digits: "set (show_nat n) \<subseteq> set ''0123456789''"
proof (induction n rule: show_nat.induct)
  case (1 n)
  show ?case
  proof (cases "n < 10")
    case True
    then show ?thesis using digit_in [of n] by (subst show_nat.simps) simp
  next
    case False
    have "n mod 10 < 10" by simp
    from digit_in [OF this] 1 [OF False] False show ?thesis
      by (subst show_nat.simps) simp
  qed
qed

lemma show_nat_free:
  assumes "c \<notin> set ''0123456789''"
  shows "c \<notin> set (show_nat n)"
  using assms show_nat_digits [of n] by blast

lemma pad2_free:
  assumes "c \<notin> set ''0123456789''"
  shows "c \<notin> set (pad2 n)"
  using show_nat_free [OF assms] assms by (simp add: pad2_def)

lemma show_int_free:
  assumes "c \<notin> set ''-0123456789''"
  shows "c \<notin> set (show_int i)"
proof -
  from assms have "c \<notin> set ''0123456789''" by simp
  from show_nat_free [OF this] assms show ?thesis by (simp add: show_int_def)
qed

lemma size_mb_free:
  assumes "c \<notin> set ''-.0123456789 MB''"
  shows "c \<notin> set (size_mb sz)"
proof -
  from assms have "c \<notin> set ''0123456789''" by simp
  from show_nat_free [OF this] pad2_free [OF this] assms show ?thesis
    by (simp add: size_mb_def Let_def)
qed

lemma strftime_free:
  assumes "c \<notin> set ''-: 0123456789''"
  shows "c \<notin> set (strftime t)"
proof -
  from assms have "c \<notin> set ''0123456789''" by simp
  from show_nat_free [OF this] pad2_free [OF this] assms show ?thesis
    by (simp add: strftime_def)
qed

lemma report_header_free:
  assumes "c = CHR ''['' \<or> c = CHR 0x0D"
  shows "c \<notin> set (report_header n t)"
proof -
  from assms have "c \<notin> set ''0123456789''" "c \<notin> set ''-: 0123456789''" by auto
  from show_nat_free [OF this(1)] strftime_free [OF this(2)] assms show ?thesis
    by (auto simp: report_header_def)
qed

lemma report_header_ends: "\<exists>h. report_header n t = h @ [CHR 0x0A]"
  by (simp add: report_header_def)


subsection \<open>Lines of a text\<close>

lemma universal_newlines_id: "CHR 0x0D \<notin> set s \<Longrightarrow> universal_newlines s = s"
  by (induction s rule: universal_newlines.induct) auto

lemma split_lines_append:
  assumes "xs = [] \<or> last xs = CHR 0x0A"
  shows "split_lines (xs @ ys) = split_lines xs @ split_lines ys"
  using assms
proof (induction xs)
  case Nil
  then show ?case by simp
next
  case (Cons c xs)
  show ?case
  proof (cases "xs = []")
    case True
    with Cons.prems show ?thesis by simp
  next
    case False
    with Cons.prems have "last xs = CHR 0x0A" by simp
    with Cons.IH have IH: "split_lines (xs @ ys) = split_lines xs @ split_lines ys" by simp
    from False have "split_lines xs \<noteq> []" by (cases xs) (auto split: list.splits)
    with IH show ?thesis by (auto split: list.splits)
  qed
qed

lemma split_lines_single:
  assumes "CHR 0x0A \<notin> set l"
  shows "split_lines (l @ [CHR 0x0A]) = [l @ [CHR 0x0A]]"
  using assms by (induction l) auto

lemma split_lines_subset: "l \<in> set (split_lines s) \<Longrightarrow> set l \<subseteq> set s"
proof (induction s arbitrary: l)
  case Nil
  then show ?case by simp
next
  case (Cons c s)
  show ?case
  proof (cases "split_lines s")
    case Nil
    with Cons.prems show ?thesis by (auto split: if_splits)
  next
    case (Cons l1 ls)
    then have "set l1 \<subseteq> set s" and "\<And>l'. l' \<in> set ls \<Longrightarrow> set l' \<subseteq> set s"
      using Cons.IH by simp_all
    with Cons Cons.prems show ?thesis by (auto split: if_splits)
  qed
qed

lemma starts_with_append: "starts_with p s \<longleftrightarrow> (\<exists>r. s = p @ r)"
  unfolding starts_with_def by (metis append_eq_conv_conj append_take_drop_id)

subsection \<open>Searching a line\<close>

lemma match_link_needs_bracket: "c \<noteq> CHR ''['' \<Longrightarrow> match_link (c # cs) = None"
  by (simp add: match_link_def)

lemma re_search_no_bracket: "CHR ''['' \<notin> set s \<Longrightarrow> re_search s = None"
  by (induction s) (auto simp: match_link_needs_bracket)

lemma re_search_skip: "CHR ''['' \<notin> set p \<Longrightarrow> re_search (p @ s) = re_search s"
  by (induction p) (auto simp: match_link_needs_bracket)

lemma extract_repos_append: "extract_repos (xs @ ys) = extract_repos xs @ extract_repos ys"
  by (induction xs) (auto split: option.splits)

lemma extract_repos_no_bracket:
  assumes "CHR ''['' \<notin> set s"
  shows "extract_repos (split_lines s) = []"
proof -
  have "\<forall>l \<in> set ls. CHR ''['' \<notin> set l \<Longrightarrow> extract_repos ls = []" for ls
    by (induction ls) (auto simp: re_search_no_bracket)
  moreover have "\<forall>l \<in> set (split_lines s). CHR ''['' \<notin> set l"
    using assms split_lines_subset by blast
  ultimately show ?thesis by blast
qed

lemma lazy_until_bracket_plain:
  assumes "CHR '']'' \<notin> set t" and "CHR 0x0A \<notin> set t"
  shows "lazy_until_bracket (t @ CHR '']'' # rest) = Some t"
  using assms by (induction t) (auto simp: dot_def)

lemma match_link_url:
  assumes "link_url u"
  shows "match_link (CHR ''['' # u @ CHR '']'' # rest) = Some u"
proof -
  from assms obtain r where "u = ''https://github.com/'' @ r" "r \<noteq> []"
    unfolding link_url_def starts_with_append by auto
  then obtain x t where u: "u = ''https://github.com/'' @ x # t"
    by (cases r) auto
  with assms have "CHR '']'' \<notin> set t" "CHR 0x0A \<notin> set t" "x \<noteq> CHR 0x0A"
    by (auto simp: link_url_def)
  then show ?thesis
    unfolding u by (simp add: match_link_def dot_def lazy_until_bracket_plain)
qed

subsection \<open>Segments of a URL\<close>

lemma py_strip_subset: "set (py_strip cs s) \<subseteq> set s"
  unfolding py_strip_def by (auto dest!: set_dropWhileD)

lemma py_split_nonempty: "py_split c s \<noteq> []"
  by (induction s) (auto split: list.splits)

lemma py_split_subset: "p \<in> set (py_split c s) \<Longrightarrow> set p \<subseteq> set s"
proof (induction s arbitrary: p)
  case Nil
  then show ?case by simp
next
  case (Cons x s)
  from py_split_nonempty [of c s] obtain p1 ps where ps: "py_split c s = p1 # ps"
    by (cases "py_split c s") auto
  then have "set p1 \<subseteq> set s" and "\<And>q. q \<in> set ps \<Longrightarrow> set q \<subseteq> set s"
    using Cons.IH by simp_all
  with ps Cons.prems show ?case by (auto split: if_splits)
qed

lemma py_split_two: "c \<in> set s \<Longrightarrow> 2 \<le> length (py_split c s)"
proof (induction s)
  case Nil
  then show ?case by simp
next
  case (Cons x s)
  from py_split_nonempty [of c s] obtain p1 ps where ps: "py_split c s = p1 # ps"
    by (cases "py_split c s") auto
  with Cons show ?case by (cases "x = c") auto
qed

lemma last_two_of_two:
  assumes "2 \<le> length xs"
  shows "\<exists>a b. last_two xs = [a, b] \<and> a \<in> set xs \<and> b \<in> set xs"
proof -
  from assms obtain ys b where 1: "xs = ys @ [b]"
    by (cases xs rule: rev_cases) auto
  with assms obtain zs a where 2: "ys = zs @ [a]"
    by (cases ys rule: rev_cases) auto
  show ?thesis unfolding 1 2 by (simp add: last_two_def)
qed

lemma py_replace_subset: "set (py_replace old [] s) \<subseteq> set s"
proof (induction old "[] :: string" s rule: py_replace.induct)
  case (1 old s)
  show ?case
  proof (cases "old = []")
    case True
    then show ?thesis by (subst py_replace.simps) auto
  next
    case old: False
    show ?thesis
    proof (cases "s = []")
      case True
      then show ?thesis by (subst py_replace.simps) simp
    next
      case s: False
      show ?thesis
      proof (cases "starts_with old s")
        case True
        from 1(1) [OF old s True] have "set (py_replace old [] (drop (length old) s)) \<subseteq> set s"
          using set_drop_subset by fastforce
        with old s True show ?thesis by (subst py_replace.simps) simp
      next
        case False
        from 1(2) [OF old s False] have "set (py_replace old [] (tl s)) \<subseteq> set s"
          using s by (cases s) auto
        with old s False show ?thesis by (subst py_replace.simps) (cases s, auto)
      qed
    qed
  qed
qed

lemma link_url_has_slash:
  assumes "link_url u"
  shows "CHR ''/'' \<in> set (py_strip ''/'' u)"
proof -
  from assms obtain r where "u = ''https://github.com/'' @ r"
    unfolding link_url_def starts_with_append by auto
  then show ?thesis by (simp add: py_strip_def dropWhile_append)
qed

lemma link_url_segments:
  assumes "link_url u"
  shows "\<exists>owner repo_name.
           last_two (py_split (CHR ''/'') (py_strip ''/'' u)) = [owner, repo_name] \<and>
           CHR ''/'' \<notin> set owner \<and> CHR ''/'' \<notin> set repo_name \<and>
           set owner \<subseteq> set u \<and> set repo_name \<subseteq> set u"
proof -
  let ?parts = "py_split (CHR ''/'') (py_strip ''/'' u)"
  from link_url_has_slash [OF assms] have "2 \<le> length ?parts" by (rule py_split_two)
  from last_two_of_two [OF this] obtain a b where
    ab: "last_two ?parts = [a, b]" "a \<in> set ?parts" "b \<in> set ?parts" by blast
  from ab(2,3) have "CHR ''/'' \<notin> set a" "CHR ''/'' \<notin> set b"
    by (auto dest: py_split_no_sep)
  moreover from ab(2,3) have "set a \<subseteq> set u" "set b \<subseteq> set u"
    using py_split_subset py_strip_subset by blast+
  ultimately show ?thesis using ab(1) by blast
qed

subsection \<open>No match before the link\<close>

lemma match_link_https:
  assumes "match_link (c # s) = Some g"
  shows "\<exists>r. s = ''https://'' @ r"
proof -
  from assms have "take 14 (take 19 s) = ''https://github''"
    by (auto simp: match_link_def Let_def split: if_splits)
  then have "take 14 s = ''https://github''" by simp
  then have "s = ''https://github'' @ drop 14 s" by (metis append_take_drop_id)
  then have "s = ''https://'' @ (''github'' @ drop 14 s)" by simp
  then show ?thesis by (rule exI)
qed

lemma no_match_in_name:
  assumes "CHR ''/'' \<notin> set b"
  shows "match_link (c # b @ CHR ''`'' # rest) = None"
proof (rule ccontr)
  assume "match_link (c # b @ CHR ''`'' # rest) \<noteq> None"
  then obtain g where "match_link (c # b @ CHR ''`'' # rest) = Some g" by auto
  from match_link_https [OF this] obtain r where eq: "b @ CHR ''`'' # rest = ''https://'' @ r"
    by blast
  let ?P = "\<lambda>x. x \<noteq> CHR ''/''"
  have "takeWhile ?P (b @ CHR ''`'' # rest) = b @ CHR ''`'' # takeWhile ?P rest"
    using assms by (subst takeWhile_append2) auto
  moreover have "takeWhile ?P (''https://'' @ r) = ''https:''" by simp
  ultimately have "b @ CHR ''`'' # takeWhile ?P rest = ''https:''" using eq by simp
  then have "CHR ''`'' \<in> set ''https:''" by (metis in_set_conv_decomp)
  then show False by simp
qed

lemma no_match_in_owner:
  assumes "CHR ''/'' \<notin> set a" and "CHR ''/'' \<notin> set b"
  shows "match_link (c # a @ CHR ''/'' # b @ CHR ''`'' # rest) = None"
proof (rule ccontr)
  assume "match_link (c # a @ CHR ''/'' # b @ CHR ''`'' # rest) \<noteq> None"
  then obtain g where "match_link (c # a @ CHR ''/'' # b @ CHR ''`'' # rest) = Some g" by auto
  from match_link_https [OF this] obtain r where
    eq: "a @ CHR ''/'' # b @ CHR ''`'' # rest = ''https://'' @ r" by blast
  let ?P = "\<lambda>x. x \<noteq> CHR ''/''"
  have "takeWhile ?P (a @ CHR ''/'' # b @ CHR ''`'' # rest) = a"
    using assms(1) by (subst takeWhile_append2) auto
  moreover have "takeWhile ?P (''https://'' @ r) = ''https:''" by simp
  ultimately have "a = ''https:''" using eq by simp
  with eq have "b @ CHR ''`'' # rest = CHR ''/'' # r" by simp
  with assms(2) show False by (cases b) auto
qed

lemma re_search_skip_name:
  assumes "CHR ''/'' \<notin> set b"
  shows "re_search (b @ CHR ''`'' # rest) = re_search rest"
  using assms
proof (induction b)
  case Nil
  then show ?case by (simp add: match_link_needs_bracket)
next
  case (Cons x b)
  then have "match_link (x # b @ CHR ''`'' # rest) = None"
    by (intro no_match_in_name) simp
  with Cons show ?case by simp
qed

lemma re_search_skip_owner:
  assumes "CHR ''/'' \<notin> set a" and "CHR ''/'' \<notin> set b"
  shows "re_search (a @ CHR ''/'' # b @ CHR ''`'' # rest) = re_search rest"
  using assms(1)
proof (induction a)
  case Nil
  then show ?case
    using re_search_skip_name [OF assms(2)] by (simp add: match_link_needs_bracket)
next
  case (Cons x a)
  then have "match_link (x # a @ CHR ''/'' # b @ CHR ''`'' # rest) = None"
    using assms(2) by (intro no_match_in_owner) simp_all
  with Cons show ?case by simp
qed

subsection \<open>Rows of the report\<close>

lemma re_search_link:
  assumes "link_url u"
  shows "re_search (CHR ''['' # u @ CHR '']'' # rest) = Some u"
  using match_link_url [OF assms] by simp

lemma report_row_link:
  assumes "linkable repo" and "url repo = Some u"
  shows "\<exists>body. report_row i repo = Inr (body @ [CHR 0x0A]) \<and>
                CHR 0x0A \<notin> set body \<and> CHR 0x0D \<notin> set body \<and>
                re_search (body @ [CHR 0x0A]) = Some u"
proof -
  from assms have u: "link_url u" by (simp add: linkable_def)
  from assms obtain st sz where st: "stars repo = Some st" and sz: "size_kb repo = Some sz"
    by (auto simp: linkable_def)
  from link_url_segments [OF u] obtain owner repo_name where
    seg: "last_two (py_split (CHR ''/'') (py_strip ''/'' u)) = [owner, repo_name]" and
    slash: "CHR ''/'' \<notin> set owner" "CHR ''/'' \<notin> set repo_name" and
    sub: "set owner \<subseteq> set u" "set repo_name \<subseteq> set u"
    by blast
  let ?name = "py_replace ''.git'' '''' repo_name"
  have name: "CHR ''/'' \<notin> set ?name" "set ?name \<subseteq> set u"
    using py_replace_subset [of "''.git''" repo_name] slash(2) sub(2) by auto
  let ?p1 = "''| '' @ show_nat i @ '' | `''"
  let ?p3 = "'' | '' @ show_int st @ '' | `'' @ size_mb sz @ ''` | ''"
  let ?tail = "''('' @ u @ '') |''"
  let ?body = "?p1 @ owner @ CHR ''/'' # ?name @ CHR ''`'' # ?p3 @ CHR ''['' # u @ CHR '']'' # ?tail"
  have row: "report_row i repo = Inr (?body @ [CHR 0x0A])"
    using assms(2) seg st sz by (simp add: report_row_def)
  have nl: "CHR 0x0A \<notin> set u" "CHR 0x0D \<notin> set u"
    using u by (simp_all add: link_url_def)
  have free: "c \<notin> set ?p1" "c \<notin> set ?p3" if "c = CHR ''['' \<or> c = CHR 0x0A \<or> c = CHR 0x0D" for c
  proof -
    from that have "c \<notin> set ''0123456789''" "c \<notin> set ''-0123456789''"
      "c \<notin> set ''-.0123456789 MB''" by auto
    from show_nat_free [OF this(1)] show_int_free [OF this(2)] size_mb_free [OF this(3)] that
    show "c \<notin> set ?p1" "c \<notin> set ?p3" by auto
  qed
  have "CHR 0x0A \<notin> set ?body"
    using free [of "CHR 0x0A"] nl(1) sub(1) name(2) by auto
  moreover have "CHR 0x0D \<notin> set ?body"
    using free [of "CHR 0x0D"] nl(2) sub(1) name(2) by auto
  moreover have "re_search (?body @ [CHR 0x0A]) = Some u"
  proof -
    have "re_search (?body @ [CHR 0x0A]) =
          re_search (?p1 @ (owner @ CHR ''/'' # ?name @ CHR ''`'' #
                      (?p3 @ (CHR ''['' # u @ CHR '']'' # (?tail @ [CHR 0x0A])))))"
      by simp
    also have "\<dots> = re_search (owner @ CHR ''/'' # ?name @ CHR ''`'' #
                      (?p3 @ (CHR ''['' # u @ CHR '']'' # (?tail @ [CHR 0x0A]))))"
      using free(1) [of "CHR ''[''"] by (intro re_search_skip) simp
    also have "\<dots> = re_search (?p3 @ (CHR ''['' # u @ CHR '']'' # (?tail @ [CHR 0x0A])))"
      using slash(1) name(1) by (rule re_search_skip_owner)
    also have "\<dots> = re_search (CHR ''['' # u @ CHR '']'' # (?tail @ [CHR 0x0A]))"
      using free(2) [of "CHR ''[''"] by (intro re_search_skip) simp
    also have "\<dots> = Some u" using u by (rule re_search_link)
    finally show ?thesis .
  qed
  ultimately show ?thesis using row by blast
qed

lemma write_rows_parse:
  assumes "list_all linkable repos" and "text0 = [] \<or> last text0 = CHR 0x0A"
    and "CHR 0x0D \<notin> set text0"
  shows "\<exists>content. write_rows i repos text0 = (None, content) \<and> CHR 0x0D \<notin> set content \<and>
           extract_repos (split_lines content) =
             extract_repos (split_lines text0) @
             map (\<lambda>r. \<lparr>url = url r, stars = None, size_kb = None\<rparr>) repos"
  using assms
proof (induction repos arbitrary: i text0)
  case Nil
  then show ?case by simp
next
  case (Cons repo repos)
  then have link: "linkable repo" and rest: "list_all linkable repos" by simp_all
  from link obtain u where u: "url repo = Some u"
    by (auto simp: linkable_def split: option.splits)
  from report_row_link [OF link u, of i] obtain body where
    row: "report_row i repo = Inr (body @ [CHR 0x0A])" and
    body: "CHR 0x0A \<notin> set body" "CHR 0x0D \<notin> set body" and
    found: "re_search (body @ [CHR 0x0A]) = Some u"
    by blast
  let ?text1 = "text0 @ body @ [CHR 0x0A]"
  have "?text1 = [] \<or> last ?text1 = CHR 0x0A" by simp
  moreover have "CHR 0x0D \<notin> set ?text1" using Cons.prems(3) body(2) by simp
  ultimately obtain content where
    w: "write_rows (Suc i) repos ?text1 = (None, content)" and
    cr: "CHR 0x0D \<notin> set content" and
    ex: "extract_repos (split_lines content) =
           extract_repos (split_lines ?text1) @
           map (\<lambda>r. \<lparr>url = url r, stars = None, size_kb = None\<rparr>) repos"
    using Cons.IH [OF rest, of ?text1 "Suc i"] by blast
  have "split_lines ?text1 = split_lines text0 @ [body @ [CHR 0x0A]]"
    using split_lines_append [OF Cons.prems(2), of "body @ [CHR 0x0A]"]
      split_lines_single [OF body(1)] by simp
  then have "extract_repos (split_lines ?text1) =
             extract_repos (split_lines text0) @ [\<lparr>url = url repo, stars = None, size_kb = None\<rparr>]"
    using found u by (simp add: extract_repos_append)
  with w cr ex row show ?case by simp
qed
section \<open>Claims about the metadata fetcher\<close>

text \<open>
  C1. For a URL held by the cache the specification asks for no network call and for
  \<open>None\<close> when the entry is the marker \<open>None\<close> stored at line 143, whatever the
  configuration. The source tests \<^verbatim>\<open>'size' in cache[repo_url]\<close> at line 111 before it
  tests \<^verbatim>\<open>cache[repo_url] is None\<close> at line 113: on the marker the first test raises
  \<^verbatim>\<open>TypeError\<close>, which nothing catches. The call makes no request and leaves the cache
  as it was, but it raises where the claim returns \<open>None\<close>. (For an entry with a size the
  claim holds: \<open>fetch_cached\<close>.)
\<close>

theorem fetch_tombstone_raises:
  "fetch_repo_metadata u (cache(u \<mapsto> None)) cfg w =
     Some (Inl TypeError, cache(u \<mapsto> None), w)"
  by (simp add: fetch_repo_metadata.simps size_in_def)

text \<open>
  C2. When the cache does not decide the URL and the API answers with a repository (no
  listed status, no rate limit, no error status, a JSON object with size \<open>sz\<close> and
  \<open>st\<close> stars): if \<open>sz\<close> exceeds the configured maximum the call stores \<open>None\<close> under
  the URL and returns \<open>None\<close>; otherwise it builds the record of url, stars and size,
  stores it under the URL and returns it.
\<close>

theorem fetch_stores_result:
  assumes "cache_miss cache u" and "api w = Responded r # rest"
    and "status_code r \<notin> {404, 403, 451}" and "rate_limited r = Inr False"
    and "\<not> http_error r"
    and "json r = Object \<lparr>data_size = Some sz, stargazers_count = Some st\<rparr>"
  shows "fetch_repo_metadata u cache cfg w =
           (if sz > MAX_REPO_SIZE_KB cfg
            then Some (Inr None, cache(u \<mapsto> None), requested u cfg w)
            else Some (Inr (Some \<lparr>url = Some u, stars = Some st, size_kb = Some sz\<rparr>),
                       cache(u \<mapsto> Some \<lparr>url = Some u, stars = Some st, size_kb = Some sz\<rparr>),
                       requested u cfg w))"
  using fetch_object [OF assms] by (simp add: Let_def)

text \<open>
  The scenario of the specification: B with 300 stars and 100 KB is stored and returned,
  C with 500 stars and 8000 KB is stored as \<open>None\<close> and not returned.
\<close>

theorem fetch_stores_result_witness:
  "cache_miss Map.empty ''https://github.com/b/b'' \<and>
   fetch_repo_metadata ''https://github.com/b/b'' Map.empty (Config None)
       (example_world\<lparr>api := [Responded (ok_response 300 100)]\<rparr>) =
     Some (Inr (Some \<lparr>url = Some ''https://github.com/b/b'', stars = Some 300, size_kb = Some 100\<rparr>),
           [''https://github.com/b/b'' \<mapsto>
              Some \<lparr>url = Some ''https://github.com/b/b'', stars = Some 300, size_kb = Some 100\<rparr>],
           requested ''https://github.com/b/b'' (Config None)
             (example_world\<lparr>api := [Responded (ok_response 300 100)]\<rparr>)) \<and>
   fetch_repo_metadata ''https://github.com/c/c'' Map.empty (Config None)
       (example_world\<lparr>api := [Responded (ok_response 500 8000)]\<rparr>) =
     Some (Inr None, [''https://github.com/c/c'' \<mapsto> None],
           requested ''https://github.com/c/c'' (Config None)
             (example_world\<lparr>api := [Responded (ok_response 500 8000)]\<rparr>))"
  using fetch_stores_result [of Map.empty "''https://github.com/b/b''"
          "example_world\<lparr>api := [Responded (ok_response 300 100)]\<rparr>" "ok_response 300 100" "[]"
          100 300 "Config None"]
        fetch_stores_result [of Map.empty "''https://github.com/c/c''"
          "example_world\<lparr>api := [Responded (ok_response 500 8000)]\<rparr>" "ok_response 500 8000" "[]"
          8000 500 "Config None"]
  by (simp add: cache_miss_def ok_response_def rate_limited_def http_error_def Config_def)

text \<open>
  C4. The specification asks for \<open>None\<close> and an untouched cache after status 404, 403
  or 451 and after any transport failure, a malformed response among them. The source
  does so for the three statuses, for a request that raises, for an error status and for a
  body that is not JSON (\<open>fetch_no_metadata\<close>), all of them caught at line 154. Two
  malformed answers escape it: a body that is JSON but not an object, on which line 139
  raises \<^verbatim>\<open>AttributeError\<close>, and a remaining-quota header that is not an integer,
  on which line 129 raises \<^verbatim>\<open>ValueError\<close>, whatever the body. The cache is
  untouched, but the call raises where the claim returns \<open>None\<close>.
\<close>

theorem malformed_answers_raise:
  "fetch_repo_metadata ''https://github.com/b/b'' Map.empty (Config None)
     (example_world\<lparr>api := [Responded ((ok_response 0 0)\<lparr>json := NonObject\<rparr>)]\<rparr>) =
   Some (Inl AttributeError, Map.empty,
         requested ''https://github.com/b/b'' (Config None)
           (example_world\<lparr>api := [Responded ((ok_response 0 0)\<lparr>json := NonObject\<rparr>)]\<rparr>)) \<and>
   fetch_repo_metadata ''https://github.com/b/b'' Map.empty (Config None)
     (example_world\<lparr>api := [Responded ((ok_response 0 0)
                                 \<lparr>ratelimit_remaining := Some OtherText, json := Undecodable\<rparr>)]\<rparr>) =
   Some (Inl ValueError, Map.empty,
         requested ''https://github.com/b/b'' (Config None)
           (example_world\<lparr>api := [Responded ((ok_response 0 0)
                                 \<lparr>ratelimit_remaining := Some OtherText, json := Undecodable\<rparr>)]\<rparr>))"
  by (simp add: fetch_repo_metadata.simps requested_def ok_response_def rate_limited_def
        http_error_def Let_def)

text \<open>
  C10. A cache entry that is a dictionary without \<^verbatim>\<open>size\<close> (written by an older
  version) is a miss: the call asks the API exactly as it would with the URL not in the
  cache, returns the same, leaves the same world, and where that call stores something
  under the URL it replaces the old entry; where it stores nothing the old entry stays.
\<close>

theorem old_entry_is_miss:
  assumes "cache u = Some (Some d)" and "size_kb d = None"
  shows "fetch_repo_metadata u cache cfg w =
           map_option (\<lambda>(res, c, w'). (res, if c u = None then cache else c, w'))
             (fetch_repo_metadata u (cache(u := None)) cfg w)"
proof -
  let ?c0 = "cache(u := None)"
  have miss: "cache_miss cache u" and miss0: "cache_miss ?c0 u"
    using assms by (simp_all add: cache_miss_def)
  show ?thesis
  proof (induction "api w" arbitrary: w)
    case Nil
    then have "api w = []" by simp
    then show ?case
      using fetch_script_empty [OF miss, of w cfg] fetch_script_empty [OF miss0, of w cfg]
      by (simp only: option.map)
  next
    case (Cons answer rest)
    then have w: "api w = answer # rest" by simp
    show ?case
    proof (cases answer)
      case RequestFailed
      with w show ?thesis
        by (simp add: fetch_request_failed [OF miss] fetch_request_failed [OF miss0])
    next
      case (Responded r)
      with w have wr: "api w = Responded r # rest" by simp
      show ?thesis
      proof (cases "status_code r \<in> {404, 403, 451}")
        case True
        then show ?thesis
          by (simp add: fetch_excluded [OF miss wr] fetch_excluded [OF miss0 wr])
      next
        case status: False
        show ?thesis
        proof (cases "rate_limited r")
          case (Inl e)
          then show ?thesis
            using fetch_header_error [OF miss wr status, of e cfg]
              fetch_header_error [OF miss0 wr status, of e cfg] by simp
        next
          case (Inr limited)
          show ?thesis
          proof (cases limited)
            case True
            with Inr have lim: "rate_limited r = Inr True" by simp
            show ?thesis
            proof (cases "reset_time r (clock w)")
              case (Inl e)
              then show ?thesis
                using lim fetch_header_error [OF miss wr status, of e cfg]
                  fetch_header_error [OF miss0 wr status, of e cfg] by simp
            next
              case (Inr reset)
              have "rest = api (slept (wait_time reset (clock w)) (requested u cfg w))"
                using wr by (simp add: api_after_request)
              from Cons.hyps(1) [OF this] show ?thesis
                by (simp add: fetch_rate_limited [OF miss wr status lim Inr]
                    fetch_rate_limited [OF miss0 wr status lim Inr])
            qed
          next
            case False
            with Inr have nolim: "rate_limited r = Inr False" by simp
            show ?thesis
            proof (cases "http_error r \<or> json r = Undecodable")
              case True
              then show ?thesis
                by (simp add: fetch_transport_error [OF miss wr status nolim]
                    fetch_transport_error [OF miss0 wr status nolim])
            next
              case ok: False
              then have noerr: "\<not> http_error r" by simp
              show ?thesis
              proof (cases "json r")
                case Undecodable
                with ok show ?thesis by simp
              next
                case NonObject
                then show ?thesis
                  by (simp add: fetch_non_object [OF miss wr status nolim noerr]
                      fetch_non_object [OF miss0 wr status nolim noerr])
              next
                case (Object dd)
                then show ?thesis
                  by (simp add: fetch_object [OF miss wr status nolim noerr Object]
                      fetch_object [OF miss0 wr status nolim noerr Object] Let_def)
              qed
            qed
          qed
        qed
      qed
    qed
  qed
qed

theorem old_entry_is_miss_witness:
  "fetch_repo_metadata ''https://github.com/b/b''
       [''https://github.com/b/b'' \<mapsto> Some \<lparr>url = Some ''https://github.com/b/b'', stars = Some 7, size_kb = None\<rparr>]
       (Config None) (example_world\<lparr>api := [Responded (ok_response 300 100)]\<rparr>) =
     Some (Inr (Some \<lparr>url = Some ''https://github.com/b/b'', stars = Some 300, size_kb = Some 100\<rparr>),
           [''https://github.com/b/b'' \<mapsto>
              Some \<lparr>url = Some ''https://github.com/b/b'', stars = Some 300, size_kb = Some 100\<rparr>],
           requested ''https://github.com/b/b'' (Config None)
             (example_world\<lparr>api := [Responded (ok_response 300 100)]\<rparr>))"
  using old_entry_is_miss [of "[''https://github.com/b/b'' \<mapsto> Some \<lparr>url = Some ''https://github.com/b/b'', stars = Some 7, size_kb = None\<rparr>]"
       "''https://github.com/b/b''" "\<lparr>url = Some ''https://github.com/b/b'', stars = Some 7, size_kb = None\<rparr>"
       "Config None" "example_world\<lparr>api := [Responded (ok_response 300 100)]\<rparr>"]
    fetch_object [of Map.empty "''https://github.com/b/b''" "example_world\<lparr>api := [Responded (ok_response 300 100)]\<rparr>"
       "ok_response 300 100" "[]" "\<lparr>data_size = Some 100, stargazers_count = Some 300\<rparr>" "Config None"]
  by (simp add: cache_miss_def ok_response_def rate_limited_def http_error_def Config_def Let_def)

text \<open>
  C3, as the claim states it, fails: line 128 returns \<open>None\<close> for status 403 before line
  129 looks at the quota header. A 403 answer whose remaining-quota header reads zero is
  neither waited for nor retried, and the success answer that would follow is never asked for.
\<close>

theorem forbidden_with_no_quota_is_not_retried:
  "fetch_repo_metadata ''https://github.com/b/b'' Map.empty (Config None)
     (example_world\<lparr>api := [Responded (limited_response\<lparr>status_code := 403\<rparr>),
                            Responded (ok_response 300 100)]\<rparr>) =
   Some (Inr None, Map.empty,
         example_world\<lparr>api := [Responded (ok_response 300 100)],
                        trace := [HttpGet (api_url ''https://github.com/b/b'') (headers (Config None))]\<rparr>)"
  by (simp add: fetch_repo_metadata.simps limited_response_def example_world_def)

text \<open>
  C3, amended. When the cache does not decide the URL and the answer has a status other
  than 404, 403 and 451 and signals rate limiting (status 429, or a remaining-quota header
  reading zero) with a reset header that is absent or an integer: the call sleeps for
  \<open>max (reset - now) 0 + 1\<close> seconds, so until one second after the later of the reset
  time and the present, and then is the same call again on the next answer. In particular,
  when the next answer is a success within the size limit, the call returns its record and
  stores it.
\<close>

theorem rate_limit_waits_and_retries:
  assumes "cache_miss cache u" and "api w = Responded r # rest"
    and "status_code r \<notin> {404, 403, 451}" and "rate_limited r = Inr True"
    and "reset_time r (clock w) = Inr reset"
  shows "fetch_repo_metadata u cache cfg w =
           fetch_repo_metadata u cache cfg (slept (wait_time reset (clock w)) (requested u cfg w))
         \<and> clock (slept (wait_time reset (clock w)) (requested u cfg w)) =
             max (of_int reset) (clock w) + 1
         \<and> api (slept (wait_time reset (clock w)) (requested u cfg w)) = rest
         \<and> trace (slept (wait_time reset (clock w)) (requested u cfg w)) =
             trace w @ [HttpGet (api_url u) (headers cfg), Sleep (max (of_int reset - clock w) 0 + 1)]
         \<and> (\<forall>r2 rest2 sz st.
              rest = Responded r2 # rest2 \<and> status_code r2 \<notin> {404, 403, 451} \<and>
              rate_limited r2 = Inr False \<and> \<not> http_error r2 \<and>
              json r2 = Object \<lparr>data_size = Some sz, stargazers_count = Some st\<rparr> \<and>
              sz \<le> MAX_REPO_SIZE_KB cfg \<longrightarrow>
              (\<exists>w'. fetch_repo_metadata u cache cfg w =
                 Some (Inr (Some \<lparr>url = Some u, stars = Some st, size_kb = Some sz\<rparr>),
                       cache(u \<mapsto> Some \<lparr>url = Some u, stars = Some st, size_kb = Some sz\<rparr>), w')))"
proof -
  let ?w' = "slept (wait_time reset (clock w)) (requested u cfg w)"
  have retry: "fetch_repo_metadata u cache cfg w = fetch_repo_metadata u cache cfg ?w'"
    by (rule fetch_rate_limited [OF assms])
  have rest: "api ?w' = rest"
    using assms(2) by (simp add: api_after_request)
  have clock: "clock ?w' = max (of_int reset) (clock w) + 1"
    by (simp add: slept_def requested_def wait_time_def max_def)
  have trace: "trace ?w' = trace w @ [HttpGet (api_url u) (headers cfg), Sleep (max (of_int reset - clock w) 0 + 1)]"
    by (simp add: slept_def requested_def wait_time_def)
  have "\<exists>w'. fetch_repo_metadata u cache cfg w =
                 Some (Inr (Some \<lparr>url = Some u, stars = Some st, size_kb = Some sz\<rparr>),
                       cache(u \<mapsto> Some \<lparr>url = Some u, stars = Some st, size_kb = Some sz\<rparr>), w')"
    if "rest = Responded r2 # rest2" "status_code r2 \<notin> {404, 403, 451}"
       "rate_limited r2 = Inr False" "\<not> http_error r2"
       "json r2 = Object \<lparr>data_size = Some sz, stargazers_count = Some st\<rparr>"
       "sz \<le> MAX_REPO_SIZE_KB cfg" for r2 rest2 sz st
  proof -
    have "api ?w' = Responded r2 # rest2" using rest that(1) by simp
    from fetch_object [OF assms(1) this that(2,3,4,5), of cfg] that(6) retry
    show ?thesis by (simp add: Let_def)
  qed
  with retry rest clock trace show ?thesis by blast
qed

theorem rate_limit_waits_and_retries_witness:
  "fetch_repo_metadata ''https://github.com/b/b'' Map.empty (Config None)
     (example_world\<lparr>api := [Responded limited_response, Responded (ok_response 300 100)]\<rparr>) =
   Some (Inr (Some \<lparr>url = Some ''https://github.com/b/b'', stars = Some 300, size_kb = Some 100\<rparr>),
         [''https://github.com/b/b'' \<mapsto>
              Some \<lparr>url = Some ''https://github.com/b/b'', stars = Some 300, size_kb = Some 100\<rparr>],
         example_world\<lparr>api := [], clock := 1700000031,
            trace := [HttpGet (api_url ''https://github.com/b/b'') (headers (Config None)),
                      Sleep 31,
                      HttpGet (api_url ''https://github.com/b/b'') (headers (Config None))]\<rparr>)"
proof -
  let ?w = "example_world\<lparr>api := [Responded limited_response, Responded (ok_response 300 100)]\<rparr>"
  have 1: "cache_miss Map.empty ''https://github.com/b/b''" by (simp add: cache_miss_def)
  have 2: "api ?w = Responded limited_response # [Responded (ok_response 300 100)]" by simp
  have 3: "status_code limited_response \<notin> {404, 403, 451}" by (simp add: limited_response_def)
  have 4: "rate_limited limited_response = Inr True" by (simp add: limited_response_def rate_limited_def)
  have 5: "reset_time limited_response (clock ?w) = Inr 1700000030"
     by (simp add: limited_response_def reset_time_def)
  have 6: "clock ?w = 1700000000" by (simp add: example_world_def)
  let ?w' = "slept (wait_time 1700000030 (clock ?w)) (requested ''https://github.com/b/b'' (Config None) ?w)"
  from rate_limit_waits_and_retries [OF 1 2 3 4 5, of "Config None"]
  have "fetch_repo_metadata ''https://github.com/b/b'' Map.empty (Config None) ?w =
        fetch_repo_metadata ''https://github.com/b/b'' Map.empty (Config None) ?w'"
    by blast
  also have "\<dots> = Some (Inr (Some \<lparr>url = Some ''https://github.com/b/b'', stars = Some 300, size_kb = Some 100\<rparr>),
         [''https://github.com/b/b'' \<mapsto>
              Some \<lparr>url = Some ''https://github.com/b/b'', stars = Some 300, size_kb = Some 100\<rparr>],
         requested ''https://github.com/b/b'' (Config None) ?w')"
    using fetch_object [of Map.empty "''https://github.com/b/b''" ?w' "ok_response 300 100" "[]"
        "\<lparr>data_size = Some 100, stargazers_count = Some 300\<rparr>" "Config None"]
    by (simp add: cache_miss_def slept_def requested_def ok_response_def rate_limited_def
        http_error_def Config_def Let_def)
  finally show ?thesis
    by (simp add: slept_def requested_def wait_time_def example_world_def)
qed

text \<open>
  C8, as the claim states it, fails: \<^verbatim>\<open>data.get("size", 0)\<close> and
  \<^verbatim>\<open>data.get("stargazers_count", 0)\<close> put 0 where a field is missing. An answer
  with neither field yields the record with 0 stars and 0 KB, stored and returned, not
  \<open>None\<close>.
\<close>

theorem missing_fields_are_read_as_zero_example:
  "fetch_repo_metadata ''https://github.com/b/b'' Map.empty (Config None)
     (example_world\<lparr>api := [Responded ((ok_response 0 0)\<lparr>json := Object \<lparr>data_size = None, stargazers_count = None\<rparr>\<rparr>)]\<rparr>) =
   Some (Inr (Some \<lparr>url = Some ''https://github.com/b/b'', stars = Some 0, size_kb = Some 0\<rparr>),
         [''https://github.com/b/b'' \<mapsto>
              Some \<lparr>url = Some ''https://github.com/b/b'', stars = Some 0, size_kb = Some 0\<rparr>],
         example_world\<lparr>api := [],
            trace := [HttpGet (api_url ''https://github.com/b/b'') (headers (Config None))]\<rparr>)"
  by (simp add: fetch_repo_metadata.simps example_world_def ok_response_def
         rate_limited_def http_error_def Config_def Let_def)

text \<open>
  C8, amended. A successful answer whose object lacks the star count or the size is read
  with 0 in place of what is missing: when the size so read is within the limit, the call
  builds the record from the URL and these values, stores it and returns it.
\<close>

theorem missing_fields_are_read_as_zero:
  assumes "cache_miss cache u" and "api w = Responded r # rest"
    and "status_code r \<notin> {404, 403, 451}" and "rate_limited r = Inr False"
    and "\<not> http_error r" and "json r = Object d"
    and "data_size d = None \<or> stargazers_count d = None"
    and "(case data_size d of None \<Rightarrow> 0 | Some n \<Rightarrow> n) \<le> MAX_REPO_SIZE_KB cfg"
  shows "fetch_repo_metadata u cache cfg w =
           Some (Inr (Some \<lparr>url = Some u,
                            stars = Some (case stargazers_count d of None \<Rightarrow> 0 | Some n \<Rightarrow> n),
                            size_kb = Some (case data_size d of None \<Rightarrow> 0 | Some n \<Rightarrow> n)\<rparr>),
                 cache(u \<mapsto> Some \<lparr>url = Some u,
                            stars = Some (case stargazers_count d of None \<Rightarrow> 0 | Some n \<Rightarrow> n),
                            size_kb = Some (case data_size d of None \<Rightarrow> 0 | Some n \<Rightarrow> n)\<rparr>),
                 requested u cfg w)"
  using fetch_object [OF assms(1-6), of cfg] assms(8) by (simp add: Let_def)

theorem missing_fields_are_read_as_zero_witness:
  "fetch_repo_metadata ''https://github.com/b/b'' Map.empty (Config None)
     (example_world\<lparr>api := [Responded ((ok_response 0 0)\<lparr>json := Object \<lparr>data_size = Some 12, stargazers_count = None\<rparr>\<rparr>)]\<rparr>) =
   Some (Inr (Some \<lparr>url = Some ''https://github.com/b/b'', stars = Some 0, size_kb = Some 12\<rparr>),
         [''https://github.com/b/b'' \<mapsto>
              Some \<lparr>url = Some ''https://github.com/b/b'', stars = Some 0, size_kb = Some 12\<rparr>],
         requested ''https://github.com/b/b'' (Config None) (example_world\<lparr>api := [Responded ((ok_response 0 0)\<lparr>json := Object \<lparr>data_size = Some 12, stargazers_count = None\<rparr>\<rparr>)]\<rparr>))"
  using missing_fields_are_read_as_zero [of Map.empty "''https://github.com/b/b''"
     "example_world\<lparr>api := [Responded ((ok_response 0 0)\<lparr>json := Object \<lparr>data_size = Some 12, stargazers_count = None\<rparr>\<rparr>)]\<rparr>"
     "(ok_response 0 0)\<lparr>json := Object \<lparr>data_size = Some 12, stargazers_count = None\<rparr>\<rparr>" "[]"
     "\<lparr>data_size = Some 12, stargazers_count = None\<rparr>" "Config None"]
  by (simp add: cache_miss_def ok_response_def rate_limited_def http_error_def Config_def)
section \<open>Claims about the ranking pipeline\<close>

text \<open>
  C5. Whenever the ranking pipeline returns a list, with a top-N that is not negative (it
  is 50 in \<^const>\<open>Config\<close>): the list is in descending order of stars, it has at most
  top-N elements, every element has a star count, and the records with any one star count
  stand in it in the order in which the fetch loop collected them (they are a prefix of
  the collected records with that count, the cut to top-N taking the rest).
\<close>

theorem ranking_sorted_and_truncated:
  assumes "get_top_repos_from_api cfg w = Some (Inr top_repos, w')"
    and "0 \<le> TOP_N_REPOS cfg"
  shows "sorted_wrt (\<lambda>a b. star_count b \<le> star_count a) top_repos \<and>
         int (length top_repos) \<le> TOP_N_REPOS cfg \<and>
         list_all (\<lambda>d. stars d \<noteq> None) top_repos \<and>
         (\<exists>text all_repos_data cache1 w1.
            list_file w = Some text \<and>
            fetch_all cfg (candidate_urls w text)
              (case cache_file w of None \<Rightarrow> Map.empty | Some c \<Rightarrow> c) w =
              Some (Inr all_repos_data, cache1, w1) \<and>
            (\<forall>k. prefix (filter (\<lambda>d. star_count d = k) top_repos)
                        (filter (\<lambda>d. star_count d = k) all_repos_data)))"
proof -
  from get_top_returns [OF assms(1)] obtain content all_repos_data cache1 w1 where
    listed: "list_file w = Some content" and
    fetched: "fetch_all cfg (candidate_urls w content)
            (case cache_file w of None \<Rightarrow> Map.empty | Some c \<Rightarrow> c) w =
            Some (Inr all_repos_data, cache1, w1)" and
    keys: "list_all (\<lambda>d. stars d \<noteq> None) all_repos_data" and
    "top_repos = py_take (TOP_N_REPOS cfg) (sort_key (\<lambda>d. - star_count d) all_repos_data)"
    by blast
  with assms(2) have top:
    "top_repos = take (nat (TOP_N_REPOS cfg)) (sort_key (\<lambda>d. - star_count d) all_repos_data)"
    by (simp add: py_take_def)
  have "sorted_wrt (\<lambda>a b. star_count b \<le> star_count a) top_repos"
    unfolding top by (rule sorted_wrt_take) (rule sorted_desc_sort_key)
  moreover have "int (length top_repos) \<le> TOP_N_REPOS cfg"
    unfolding top using assms(2) by simp
  moreover have "list_all (\<lambda>d. stars d \<noteq> None) top_repos"
    unfolding top using keys by (auto simp: list_all_iff dest: in_set_takeD)
  moreover have "\<forall>k. prefix (filter (\<lambda>d. star_count d = k) top_repos)
                           (filter (\<lambda>d. star_count d = k) all_repos_data)"
    unfolding top by (simp add: ties_keep_order)
  ultimately show ?thesis using listed fetched by blast
qed

theorem ranking_sorted_and_truncated_witness:
  "\<exists>w'. get_top_repos_from_api ((Config None)\<lparr>TOP_N_REPOS := 2\<rparr>) ranking_world =
           Some (Inr [\<lparr>url = Some ''https://github.com/e/e'', stars = Some 900, size_kb = Some 10\<rparr>,
                      \<lparr>url = Some ''https://github.com/b/b'', stars = Some 300, size_kb = Some 100\<rparr>],
                 w') \<and>
         int (length [\<lparr>url = Some ''https://github.com/e/e'', stars = Some 900, size_kb = Some 10\<rparr>,
                      \<lparr>url = Some ''https://github.com/b/b'', stars = Some 300, size_kb = Some 100\<rparr>])
           \<le> TOP_N_REPOS ((Config None)\<lparr>TOP_N_REPOS := 2\<rparr>)"
proof -
  let ?cfg = "(Config None)\<lparr>TOP_N_REPOS := 2\<rparr>"
  let ?top = "[\<lparr>url = Some ''https://github.com/e/e'', stars = Some 900, size_kb = Some 10\<rparr>,
               \<lparr>url = Some ''https://github.com/b/b'', stars = Some 300, size_kb = Some 100\<rparr>]"
  from ranking_run obtain w' where
    run: "get_top_repos_from_api ?cfg ranking_world = Some (Inr ?top, w')"
    by (cases "get_top_repos_from_api ?cfg ranking_world") auto
  have "0 \<le> TOP_N_REPOS ?cfg" by simp
  from ranking_sorted_and_truncated [OF run this] run show ?thesis by blast
qed
section \<open>Claims about the executor\<close>


section \<open>Claims about the process\<close>

text \<open>
  C6. The specification has one fatal condition, a missing input file, and exit status 0
  on every other run, any other failure skipping one repository. The source does not
  keep to it. On the run after a repository was found too large the input file is there,
  the cache file holds \<open>None\<close> for that repository, and line 111 raises
  \<^verbatim>\<open>TypeError\<close>: the process ends with status 1, before any request and before any
  clone. The last part runs the script twice: the first run on the five candidates ends
  with status 0 and stores \<open>None\<close> for C; with its report deleted, the second run ends
  with status 1.
\<close>

theorem tombstone_run_exits_one:
  "list_file tombstone_world = Some (''https://github.com/c/c'' @ [CHR 0x0A]) \<and>
   map_option fst (main tombstone_world) = Some 1 \<and>
   map_option (trace \<circ> snd) (main tombstone_world) = Some [] \<and>
   (case main ranking_world of
      None \<Rightarrow> False
    | Some (status, w1) \<Rightarrow>
        status = 0 \<and>
        map_option fst
          (main (w1\<lparr>report_file := None,
                    api := [Responded ((ok_response 0 0)\<lparr>status_code := 404\<rparr>)]\<rparr>)) = Some 1)"
  by code_simp
section \<open>Claims about the report\<close>

text \<open>
  C7, as the claim states it, fails: the pipeline accepts every line that mentions
  \<^verbatim>\<open>github.com\<close>, the pattern of line 31 only links that begin with
  \<^verbatim>\<open>https://github.com/\<close>. A ranked list with the URL
  \<^verbatim>\<open>http://github.com/a/b\<close> is written without an error and parsed to nothing.
\<close>

theorem http_url_is_lost:
  "fst (write_markdown_file
          [\<lparr>url = Some ''http://github.com/a/b'', stars = Some 5, size_kb = Some 5000\<rparr>]
          example_world) = Inr () \<and>
   parse_markdown_for_repos
     (snd (write_markdown_file
             [\<lparr>url = Some ''http://github.com/a/b'', stars = Some 5, size_kb = Some 5000\<rparr>]
             example_world)) = []"
  by code_simp

text \<open>
  C7, amended. For every ranked list whose records have a star count, a size and a URL
  that begins with \<^verbatim>\<open>https://github.com/\<close>, goes on after it and holds no closing
  bracket, line feed or carriage return: the report is written without an error, and
  parsing it yields the URLs of the list, each once, in the order of the list.
\<close>

theorem report_round_trip:
  assumes "list_all linkable repos"
  shows "fst (write_markdown_file repos w) = Inr () \<and>
         parse_markdown_for_repos (snd (write_markdown_file repos w)) =
           map (\<lambda>r. \<lparr>url = url r, stars = None, size_kb = None\<rparr>) repos"
proof -
  let ?h = "report_header (length repos) (now w)"
  obtain h where "?h = h @ [CHR 0x0A]" using report_header_ends by blast
  then have "?h = [] \<or> last ?h = CHR 0x0A" by simp
  moreover have "CHR 0x0D \<notin> set ?h" by (rule report_header_free) simp
  ultimately obtain content where
    w: "write_rows 1 repos ?h = (None, content)" and
    cr: "CHR 0x0D \<notin> set content" and
    ex: "extract_repos (split_lines content) =
           extract_repos (split_lines ?h) @
           map (\<lambda>r. \<lparr>url = url r, stars = None, size_kb = None\<rparr>) repos"
    using write_rows_parse [OF assms, of ?h 1] by blast
  have "CHR ''['' \<notin> set ?h" by (rule report_header_free) simp
  then have "extract_repos (split_lines ?h) = []" by (rule extract_repos_no_bracket)
  with w cr ex show ?thesis
    by (simp add: write_markdown_file_def parse_markdown_for_repos_def read_lines_def
        universal_newlines_id)
qed

theorem report_round_trip_witness:
  "list_all linkable
     [\<lparr>url = Some ''https://github.com/e/e.git'', stars = Some 900, size_kb = Some 10\<rparr>,
      \<lparr>url = Some ''https://github.com/[b/b['', stars = Some 300, size_kb = Some 100\<rparr>] \<and>
   parse_markdown_for_repos
     (snd (write_markdown_file
             [\<lparr>url = Some ''https://github.com/e/e.git'', stars = Some 900, size_kb = Some 10\<rparr>,
              \<lparr>url = Some ''https://github.com/[b/b['', stars = Some 300, size_kb = Some 100\<rparr>]
             example_world)) =
     [\<lparr>url = Some ''https://github.com/e/e.git'', stars = None, size_kb = None\<rparr>,
      \<lparr>url = Some ''https://github.com/[b/b['', stars = None, size_kb = None\<rparr>]"
  using report_round_trip
    [of "[\<lparr>url = Some ''https://github.com/e/e.git'', stars = Some 900, size_kb = Some 10\<rparr>,
          \<lparr>url = Some ''https://github.com/[b/b['', stars = Some 300, size_kb = Some 100\<rparr>]"
        example_world]
  by (simp add: linkable_def link_url_def starts_with_def)

end
